theory Spec2Isabelle
  imports Main "HOL-Library.Word"
begin

unbundle bit_operations_syntax

section \<open>Platform types used by MediaFrameReaderContext.cpp\<close>

text \<open>
  The embedding follows \<^verbatim>\<open>src/Shared/HoloLensForCV/MediaFrameReaderContext.cpp\<close>.
  Handles (\<^verbatim>\<open>T^\<close>) that may be \<^verbatim>\<open>nullptr\<close> are options, a C++/CX exception is a value
  of \<open>Exception\<close>, and a \<^verbatim>\<open>float\<close> is its 32-bit pattern, so that \<^verbatim>\<open>memset\<close> and
  \<^verbatim>\<open>reinterpret_cast\<close> act on the bits as they do in the program.
\<close>

type_synonym byte = "8 word"

text \<open>\<^verbatim>\<open>Windows::Foundation::Numerics::float4x4\<close>: sixteen floats, row by row.\<close>

record float4x4 =
  m11 :: "32 word"
  m12 :: "32 word"
  m13 :: "32 word"
  m14 :: "32 word"
  m21 :: "32 word"
  m22 :: "32 word"
  m23 :: "32 word"
  m24 :: "32 word"
  m31 :: "32 word"
  m32 :: "32 word"
  m33 :: "32 word"
  m34 :: "32 word"
  m41 :: "32 word"
  m42 :: "32 word"
  m43 :: "32 word"
  m44 :: "32 word"

text \<open>\<^verbatim>\<open>float4x4 zero; memset(&zero, 0, sizeof(zero));\<close> (lines 189-194 and 231-236).\<close>

definition zero :: float4x4 where
  "zero = \<lparr> m11 = 0, m12 = 0, m13 = 0, m14 = 0,
            m21 = 0, m22 = 0, m23 = 0, m24 = 0,
            m31 = 0, m32 = 0, m33 = 0, m34 = 0,
            m41 = 0, m42 = 0, m43 = 0, m44 = 0 \<rparr>"

text \<open>
  The float at index \<open>i\<close> of a byte buffer, read the way the little-endian targets of the
  program read it: byte \<open>4 * i\<close> is the least significant one.
\<close>

definition float_at :: "byte list \<Rightarrow> nat \<Rightarrow> 32 word" where
  "float_at bs i =
     ucast (bs ! (4 * i)) OR
     push_bit 8 (ucast (bs ! (4 * i + 1))) OR
     push_bit 16 (ucast (bs ! (4 * i + 2))) OR
     push_bit 24 (ucast (bs ! (4 * i + 3)))"

text \<open>
  The \<open>n\<close> bytes of memory that start at the first byte of an array: the array's own
  bytes \<open>bs\<close> and, where \<open>n\<close> exceeds their number, the bytes that lie behind the array,
  \<open>beyond 0\<close>, \<open>beyond 1\<close>, and so on.
\<close>

definition read_memory :: "byte list \<Rightarrow> (nat \<Rightarrow> byte) \<Rightarrow> nat \<Rightarrow> byte list" where
  "read_memory bs beyond n = take n (bs @ map beyond [0..<n])"

text \<open>
  \<^verbatim>\<open>*reinterpret_cast<float4x4*>(array->Data)\<close> (lines 213-214) reads \<^verbatim>\<open>sizeof(float4x4)\<close> = 64
  bytes from the start of the array, whatever the length of the array: the program makes
  no check, and on a shorter array the read continues into the memory behind it.
\<close>

definition reinterpret_cast_float4x4 :: "byte list \<Rightarrow> (nat \<Rightarrow> byte) \<Rightarrow> float4x4" where
  "reinterpret_cast_float4x4 bs beyond =
     (let m = read_memory bs beyond 64
      in \<lparr> m11 = float_at m 0, m12 = float_at m 1,
           m13 = float_at m 2, m14 = float_at m 3,
           m21 = float_at m 4, m22 = float_at m 5,
           m23 = float_at m 6, m24 = float_at m 7,
           m31 = float_at m 8, m32 = float_at m 9,
           m33 = float_at m 10, m34 = float_at m 11,
           m41 = float_at m 12, m42 = float_at m 13,
           m43 = float_at m 14, m44 = float_at m 15 \<rparr>)"

text \<open>The bytes a float and a \<^verbatim>\<open>float4x4\<close> occupy in memory, in address order.\<close>

definition float_bytes :: "32 word \<Rightarrow> byte list" where
  "float_bytes w = [ucast w, ucast (drop_bit 8 w), ucast (drop_bit 16 w), ucast (drop_bit 24 w)]"

definition float4x4_bytes :: "float4x4 \<Rightarrow> byte list" where
  "float4x4_bytes m =
     float_bytes (m11 m) @ float_bytes (m12 m) @ float_bytes (m13 m) @ float_bytes (m14 m) @
     float_bytes (m21 m) @ float_bytes (m22 m) @ float_bytes (m23 m) @ float_bytes (m24 m) @
     float_bytes (m31 m) @ float_bytes (m32 m) @ float_bytes (m33 m) @ float_bytes (m34 m) @
     float_bytes (m41 m) @ float_bytes (m42 m) @ float_bytes (m43 m) @ float_bytes (m44 m)"

text \<open>
  \<^verbatim>\<open>SensorType\<close>: the source names the four visible-light enumerators (lines 256-259); the
  enumeration's declaration is not part of the file, so every other enumerator is
  \<open>OtherSensorType\<close> with its numeric value.
\<close>

datatype SensorType =
    VisibleLightLeftFront
  | VisibleLightLeftLeft
  | VisibleLightRightFront
  | VisibleLightRightRight
  | OtherSensorType int

text \<open>\<^verbatim>\<open>Platform::Guid(a, b, c, d .. k)\<close>.\<close>

datatype Guid = Guid "32 word" "16 word" "16 word" "byte list"

definition c_MFSampleExtension_Spatial_CameraCoordinateSystem :: Guid where
  "c_MFSampleExtension_Spatial_CameraCoordinateSystem =
     Guid 0x9d13c82f 0x2199 0x4e67 [0x91, 0xcd, 0xd1, 0xa4, 0x18, 0x1f, 0x25, 0x34]"

definition c_MFSampleExtension_Spatial_CameraViewTransform :: Guid where
  "c_MFSampleExtension_Spatial_CameraViewTransform =
     Guid 0x4e251fa4 0x830f 0x4770 [0x85, 0x9a, 0x4b, 0x8d, 0x99, 0xaa, 0x80, 0x9b]"

type_synonym SpatialCoordinateSystem = nat
type_synonym PerceptionTimestamp = nat
type_synonym DateTime = "64 word"
type_synonym ISensorFrameSink = nat
type_synonym PlatformCameraIntrinsics = nat

text \<open>
  A \<^verbatim>\<open>Platform::Object^\<close> stored in the property bag of a frame: null, a spatial coordinate
  system, a boxed byte array (its bytes, and the memory that lies behind them), or an
  object of any other class.
\<close>

datatype Object =
    Null
  | CoordinateSystemObject SpatialCoordinateSystem
  | ByteArrayObject "byte list" "nat \<Rightarrow> byte"
  | OtherObject nat

datatype Exception =
    InvalidCastException
  | NullReferenceException
  | OtherException nat

text \<open>
  \<^verbatim>\<open>safe_cast<T^>(o)\<close>: null stays null, an object of class \<open>T\<close> is returned, and any other
  object raises \<^verbatim>\<open>Platform::InvalidCastException\<close>.
\<close>

fun safe_cast_SpatialCoordinateSystem :: "Object \<Rightarrow> Exception + SpatialCoordinateSystem option" where
  "safe_cast_SpatialCoordinateSystem Null = Inr None"
| "safe_cast_SpatialCoordinateSystem (CoordinateSystemObject cs) = Inr (Some cs)"
| "safe_cast_SpatialCoordinateSystem _ = Inl InvalidCastException"

fun safe_cast_IBoxArray :: "Object \<Rightarrow> Exception + (byte list \<times> (nat \<Rightarrow> byte)) option" where
  "safe_cast_IBoxArray Null = Inr None"
| "safe_cast_IBoxArray (ByteArrayObject bs beyond) = Inr (Some (bs, beyond))"
| "safe_cast_IBoxArray _ = Inl InvalidCastException"

text \<open>
  \<^verbatim>\<open>SoftwareBitmap\<close>: \<^verbatim>\<open>PixelWidth\<close> and \<^verbatim>\<open>PixelHeight\<close> are 32-bit \<^verbatim>\<open>int\<close>s, kept as their bits
  (\<open>sint\<close> reads the number).
\<close>

record SoftwareBitmap =
  PixelWidth :: "32 word"
  PixelHeight :: "32 word"
  PixelData :: "byte list"

text \<open>\<^verbatim>\<open>SoftwareBitmap::Copy\<close>: a new bitmap with the same dimensions and pixels.\<close>

definition SoftwareBitmap_Copy :: "SoftwareBitmap \<Rightarrow> SoftwareBitmap" where
  "SoftwareBitmap_Copy b =
     \<lparr> PixelWidth = PixelWidth b, PixelHeight = PixelHeight b, PixelData = PixelData b \<rparr>"

record VideoMediaFrame =
  SoftwareBitmap :: "SoftwareBitmap option"
  VideoCameraIntrinsics :: "PlatformCameraIntrinsics option"

text \<open>
  \<^verbatim>\<open>MediaFrameReference\<close>. \<^verbatim>\<open>SystemRelativeTime\<close> is a nullable box around the duration in
  ticks. \<^verbatim>\<open>Properties\<close> is the property bag: \<^verbatim>\<open>HasKey(k)\<close> is \<open>Properties frame k \<noteq> None\<close>, and
  \<^verbatim>\<open>Lookup(k)\<close>, which the handler calls only after \<^verbatim>\<open>HasKey(k)\<close>, is the stored object.
\<close>

record MediaFrameReference =
  SystemRelativeTime :: "64 word option"
  VideoMediaFrame :: "VideoMediaFrame option"
  Properties :: "Guid \<rightharpoonup> Object"

text \<open>
  The \<^verbatim>\<open>sender\<close> of one arrival: what its \<^verbatim>\<open>TryAcquireLatestFrame()\<close> returns to the one call
  the handler makes, null when no frame is available.
\<close>

record MediaFrameReader =
  TryAcquireLatestFrame :: "MediaFrameReference option"

section \<open>The objects of the program\<close>

text \<open>
  \<^verbatim>\<open>HoloLensForCV::CameraIntrinsics\<close>, as the arguments its constructor receives at lines
  264-265: the handle obtained by \<^verbatim>\<open>reinterpret_cast\<close> from the property (no check is made,
  so it is the stored object itself), the \<^verbatim>\<open>unsigned int\<close> width and the bitmap's height.
\<close>

record CameraIntrinsics =
  SensorStreamingCameraIntrinsics :: Object
  ImageWidth :: "32 word"
  ImageHeight :: "32 word"

record SensorFrame =
  FrameType :: SensorType
  Timestamp :: DateTime
  Bitmap :: SoftwareBitmap
  FrameToOrigin :: float4x4
  CameraViewTransform :: float4x4
  FrameCameraIntrinsics :: "CameraIntrinsics option"

text \<open>
  Modelled from the spec: the constructor of \<^verbatim>\<open>SensorFrame\<close> is not in the source. It
  stores the sensor type, the timestamp and the bitmap; the intrinsics are absent until
  supplied. The two transforms start at a value \<open>t0\<close> the model leaves open, so that
  nothing proved below depends on what the constructor puts there.
\<close>

definition new_SensorFrame :: "float4x4 \<Rightarrow> SensorType \<Rightarrow> DateTime \<Rightarrow> SoftwareBitmap \<Rightarrow> SensorFrame" where
  "new_SensorFrame t0 st ts bmp =
     \<lparr> FrameType = st, Timestamp = ts, Bitmap = bmp,
       FrameToOrigin = t0, CameraViewTransform = t0, FrameCameraIntrinsics = None \<rparr>"

type_synonym SensorFrameRef = nat

text \<open>
  What the handler does that is visible from outside, in program order: a call of
  \<^verbatim>\<open>dbg::trace\<close> (with its format string), a call of \<^verbatim>\<open>Send\<close> on the sink, taking and
  releasing \<^verbatim>\<open>_latestSensorFrameMutex\<close>, and the assignment to \<^verbatim>\<open>_latestSensorFrame\<close>.
\<close>

datatype Event =
    Trace string
  | Send ISensorFrameSink SensorFrameRef
  | MutexLock
  | MutexUnlock
  | AssignLatest SensorFrameRef

text \<open>
  The members the constructor (lines 16-24) initialises and nothing assigns afterwards.
  \<open>timeConverter\<close> stands for \<^verbatim>\<open>_timeConverter.RelativeTicksToAbsoluteTicks(..).count()\<close> and
  \<open>originCoordinateSystem\<close> for what evaluating
  \<^verbatim>\<open>_spatialPerception->GetOriginFrameOfReference()->CoordinateSystem\<close> gives: a coordinate
  system, or an exception (for instance from a null frame of reference). Both classes are
  outside the source.
\<close>

record MediaFrameReaderContext =
  sensorType :: SensorType
  originCoordinateSystem :: "Exception + SpatialCoordinateSystem"
  sensorFrameSink :: "ISensorFrameSink option"
  timeConverter :: "64 word \<Rightarrow> 64 word"

text \<open>
  The platform the handler calls into, and the constants of headers outside the source:
  the two logging switches, the third metadata key, and the initial transform of a new
  \<^verbatim>\<open>SensorFrame\<close>. \<^verbatim>\<open>FromHistoricalTargetTime\<close>, \<^verbatim>\<open>TryGetTransformTo\<close> and the sink's \<^verbatim>\<open>Send\<close> are
  code outside the source and may raise: \<open>Inl e\<close>, and for \<open>SendRaises\<close> (given the sink
  and the frame handed to it) \<open>Some e\<close>. \<^verbatim>\<open>TryGetTransformTo\<close> returns null (\<open>Inr None\<close>) when
  it has no transform.
\<close>

record Platform =
  FromHistoricalTargetTime :: "DateTime \<Rightarrow> Exception + PerceptionTimestamp"
  TryGetTransformTo ::
    "SpatialCoordinateSystem \<Rightarrow> SpatialCoordinateSystem \<Rightarrow> Exception + float4x4 option"
  SendRaises :: "ISensorFrameSink \<Rightarrow> SensorFrame option \<Rightarrow> Exception option"
  DBG_ENABLE_VERBOSE_LOGGING :: bool
  DBG_ENABLE_ERROR_LOGGING :: bool
  MFSampleExtension_SensorStreaming_CameraIntrinsics :: Guid
  initialTransform :: float4x4

text \<open>
  The mutable state: the slot \<^verbatim>\<open>_latestSensorFrame\<close>, the \<^verbatim>\<open>SensorFrame\<close> objects allocated so
  far (a reference is an index into \<open>heap\<close>; \<^verbatim>\<open>ref new\<close> appends), and the events so far.
\<close>

record State =
  latestSensorFrame :: "SensorFrameRef option"
  heap :: "SensorFrame list"
  events :: "Event list"

definition deref :: "State \<Rightarrow> SensorFrameRef \<Rightarrow> SensorFrame option" where
  "deref s r = (if r < length (heap s) then Some (heap s ! r) else None)"

definition trace :: "string \<Rightarrow> State \<Rightarrow> State" where
  "trace msg s = s\<lparr> events := events s @ [Trace msg] \<rparr>"

definition trace_if :: "bool \<Rightarrow> string \<Rightarrow> State \<Rightarrow> State" where
  "trace_if enabled msg s = (if enabled then trace msg s else s)"

text \<open>\<^verbatim>\<open>ref new SensorFrame(..)\<close>: the new reference and the state holding the object.\<close>

definition ref_new :: "SensorFrame \<Rightarrow> State \<Rightarrow> SensorFrameRef \<times> State" where
  "ref_new obj s = (length (heap s), s\<lparr> heap := heap s @ [obj] \<rparr>)"

text \<open>An assignment to a property of the object behind a reference.\<close>

definition assign :: "SensorFrameRef \<Rightarrow> (SensorFrame \<Rightarrow> SensorFrame) \<Rightarrow> State \<Rightarrow> State" where
  "assign r f s = (if r < length (heap s) then s\<lparr> heap := (heap s)[r := f (heap s ! r)] \<rparr> else s)"

text \<open>
  The state right after construction (lines 16-24): the constructor does not mention
  \<^verbatim>\<open>_latestSensorFrame\<close>, and a handle member starts as \<^verbatim>\<open>nullptr\<close>.
\<close>

definition initial :: State where
  "initial = \<lparr> latestSensorFrame = None, heap = [], events = [] \<rparr>"

section \<open>GetLatestSensorFrame (lines 26-37)\<close>

definition GetLatestSensorFrame :: "State \<Rightarrow> SensorFrameRef option \<times> State" where
  "GetLatestSensorFrame s =
     (let s1 = s\<lparr> events := events s @ [MutexLock] \<rparr>;
          latest = latestSensorFrame s1;
          s2 = s1\<lparr> events := events s1 @ [MutexUnlock] \<rparr>
      in (latest, s2))"

section \<open>FrameArrived (lines 39-278)\<close>

text \<open>
  How a call of the handler ends: at one of its \<^verbatim>\<open>return\<close> statements, at its last
  line, or with an exception that nothing caught.
\<close>

datatype Exit =
    ReturnFrameNull
  | ReturnVideoMediaFrameNull
  | ReturnSoftwareBitmapNull
  | ReturnTimestampFailed
  | Completed
  | Throw Exception

text \<open>
  Lines 145-198: the frame-to-origin transform. The argument of \<^verbatim>\<open>TryGetTransformTo\<close> is
  evaluated before the call, and both stand outside any \<^verbatim>\<open>try\<close> block.
\<close>

definition extractFrameToOrigin ::
  "Platform \<Rightarrow> MediaFrameReaderContext \<Rightarrow> MediaFrameReference \<Rightarrow> SensorFrameRef \<Rightarrow> State \<Rightarrow>
   Exception + State" where
  "extractFrameToOrigin pf this frame sensorFrame s =
     (case (case Properties frame c_MFSampleExtension_Spatial_CameraCoordinateSystem of
              Some obj \<Rightarrow> safe_cast_SpatialCoordinateSystem obj
            | None \<Rightarrow> Inr None) of
        Inl e \<Rightarrow> Inl e
      | Inr frameCoordinateSystem \<Rightarrow>
          (case (case frameCoordinateSystem of
                   Some cs \<Rightarrow>
                     (case originCoordinateSystem this of
                        Inl e \<Rightarrow> Inl e
                      | Inr origin \<Rightarrow>
                          (case TryGetTransformTo pf cs origin of
                             Inl e \<Rightarrow> Inl e
                           | Inr (Some v) \<Rightarrow>
                               Inr (True,
                                    assign sensorFrame (\<lambda>x. x\<lparr> FrameToOrigin := v \<rparr>)
                                      (trace_if (DBG_ENABLE_VERBOSE_LOGGING pf)
                                         ''frameToOrigin=[..]'' s))
                           | Inr None \<Rightarrow> Inr (False, s)))
                 | None \<Rightarrow> Inr (False, s)) of
             Inl e \<Rightarrow> Inl e
           | Inr (frameToOriginObtained, s1) \<Rightarrow>
               Inr (if \<not> frameToOriginObtained
                    then assign sensorFrame (\<lambda>x. x\<lparr> FrameToOrigin := zero \<rparr>) s1
                    else s1)))"

text \<open>
  Lines 204-239: the camera-view transform. \<^verbatim>\<open>->Value\<close> on the null handle that \<^verbatim>\<open>safe_cast\<close>
  returns for a null property raises \<^verbatim>\<open>Platform::NullReferenceException\<close>. The array's
  length is not looked at.
\<close>

definition extractCameraViewTransform ::
  "Platform \<Rightarrow> MediaFrameReference \<Rightarrow> SensorFrameRef \<Rightarrow> State \<Rightarrow> Exception + State" where
  "extractCameraViewTransform pf frame sensorFrame s =
     (case Properties frame c_MFSampleExtension_Spatial_CameraViewTransform of
        Some mfMtUserData \<Rightarrow>
          (case safe_cast_IBoxArray mfMtUserData of
             Inl e \<Rightarrow> Inl e
           | Inr None \<Rightarrow> Inl NullReferenceException
           | Inr (Some (cameraViewTransformAsPlatformArray, beyond)) \<Rightarrow>
               Inr (trace_if (DBG_ENABLE_VERBOSE_LOGGING pf) ''cameraViewTransform=[..]''
                      (assign sensorFrame
                         (\<lambda>x. x\<lparr> CameraViewTransform :=
                                    reinterpret_cast_float4x4 cameraViewTransformAsPlatformArray
                                      beyond \<rparr>) s)))
      | None \<Rightarrow> Inr (assign sensorFrame (\<lambda>x. x\<lparr> CameraViewTransform := zero \<rparr>) s))"

text \<open>
  Lines 245-266: the camera intrinsics. \<open>ci\<close> is read at line 245 and not used again.
  \<^verbatim>\<open>unsigned int imageWidth = softwareBitmap->PixelWidth\<close> keeps the 32 bits of the
  \<^verbatim>\<open>int\<close> (\<open>unat\<close> reads the number), and \<^verbatim>\<open>imageWidth * 4\<close> is a product of \<^verbatim>\<open>unsigned int\<close>, modulo \<open>2 ^ 32\<close>.
\<close>

definition extractCameraIntrinsics ::
  "Platform \<Rightarrow> MediaFrameReaderContext \<Rightarrow> MediaFrameReference \<Rightarrow> VideoMediaFrame \<Rightarrow>
   SoftwareBitmap \<Rightarrow> SensorFrameRef \<Rightarrow> State \<Rightarrow> State" where
  "extractCameraIntrinsics pf this frame video softwareBitmap sensorFrame s =
     (let ci = VideoCameraIntrinsics video in
      case Properties frame (MFSampleExtension_SensorStreaming_CameraIntrinsics pf) of
        Some cameraIntrinsics \<Rightarrow>
          (let imageWidth0 = PixelWidth softwareBitmap;
               imageWidth =
                 (if sensorType this = VisibleLightLeftFront \<or>
                     sensorType this = VisibleLightLeftLeft \<or>
                     sensorType this = VisibleLightRightFront \<or>
                     sensorType this = VisibleLightRightRight
                  then imageWidth0 * 4 else imageWidth0)
           in assign sensorFrame
                (\<lambda>x. x\<lparr> FrameCameraIntrinsics :=
                           Some \<lparr> SensorStreamingCameraIntrinsics = cameraIntrinsics,
                                  ImageWidth = imageWidth,
                                  ImageHeight = PixelHeight softwareBitmap \<rparr> \<rparr>) s)
      | None \<Rightarrow> s)"

text \<open>
  Lines 268-271: delivery to the sink, when one is configured. The call is made (the event
  is recorded) and then either returns or raises (the first component); it stands outside
  any \<^verbatim>\<open>try\<close> block.
\<close>

definition sendToSink ::
  "Platform \<Rightarrow> MediaFrameReaderContext \<Rightarrow> SensorFrameRef \<Rightarrow> State \<Rightarrow> Exception option \<times> State" where
  "sendToSink pf this sensorFrame s =
     (case sensorFrameSink this of
        Some sink \<Rightarrow>
          (SendRaises pf sink (deref s sensorFrame),
           s\<lparr> events := events s @ [Send sink sensorFrame] \<rparr>)
      | None \<Rightarrow> (None, s))"

text \<open>Lines 273-277: the slot is assigned while the mutex is held.\<close>

definition storeLatest :: "SensorFrameRef \<Rightarrow> State \<Rightarrow> State" where
  "storeLatest sensorFrame s =
     (let s1 = s\<lparr> events := events s @ [MutexLock] \<rparr>;
          s2 = s1\<lparr> latestSensorFrame := Some sensorFrame,
                   events := events s1 @ [AssignLatest sensorFrame] \<rparr>
      in s2\<lparr> events := events s2 @ [MutexUnlock] \<rparr>)"

text \<open>
  The handler. \<^verbatim>\<open>frame->SystemRelativeTime\<close> is a nullable box; reading \<^verbatim>\<open>->Value\<close> of a null
  handle raises \<^verbatim>\<open>Platform::NullReferenceException\<close>. Only the call of
  \<^verbatim>\<open>FromHistoricalTargetTime\<close> stands inside a \<^verbatim>\<open>try\<close> block (lines 104-119); an exception of
  any later step leaves the handler at that step, with the state reached so far. The steps
  that can raise here are the two \<^verbatim>\<open>safe_cast\<close>s, the null dereferences, the origin lookup,
  \<^verbatim>\<open>TryGetTransformTo\<close> and \<^verbatim>\<open>Send\<close>; property getters, \<^verbatim>\<open>HasKey\<close>, \<^verbatim>\<open>Lookup\<close> after \<^verbatim>\<open>HasKey\<close>,
  \<^verbatim>\<open>SoftwareBitmap::Copy\<close>, \<^verbatim>\<open>ref new\<close> and the mutex are taken to return.
\<close>

definition FrameArrived ::
  "Platform \<Rightarrow> MediaFrameReaderContext \<Rightarrow> MediaFrameReader \<Rightarrow> State \<Rightarrow> Exit \<times> State" where
  "FrameArrived pf this sender s =
     (case TryAcquireLatestFrame sender of
        None \<Rightarrow>
          (ReturnFrameNull,
           trace ''MediaFrameReaderContext::FrameArrived: _sensorType=%s (%i), frame is null'' s)
      | Some frame \<Rightarrow>
     (case VideoMediaFrame frame of
        None \<Rightarrow>
          (ReturnVideoMediaFrameNull,
           trace ''MediaFrameReaderContext::FrameArrived: _sensorType=%s (%i), frame->VideoMediaFrame is null'' s)
      | Some video \<Rightarrow>
     (case SoftwareBitmap video of
        None \<Rightarrow>
          (ReturnSoftwareBitmapNull,
           trace ''MediaFrameReaderContext::FrameArrived: _sensorType=%s (%i), frame->VideoMediaFrame->SoftwareBitmap is null'' s)
      | Some sourceBitmap \<Rightarrow>
     (case SystemRelativeTime frame of
        None \<Rightarrow> (Throw NullReferenceException, s)
      | Some duration \<Rightarrow>
     (let s1 = trace_if (DBG_ENABLE_VERBOSE_LOGGING pf)
                 ''MediaFrameReaderContext::FrameArrived: _sensorType=%s (%i), timestamp=%llu (relative)'' s;
          timestamp = timeConverter this duration
      in
      case FromHistoricalTargetTime pf timestamp of
        Inl exception \<Rightarrow>
          (ReturnTimestampFailed,
           trace_if (DBG_ENABLE_ERROR_LOGGING pf)
             ''MediaFrameReaderContext::FrameArrived: PerceptionTimestampHelper::FromHistoricalTargetTime call failed: %s'' s1)
      | Inr perceptionTimestamp \<Rightarrow>
     (let softwareBitmap = SoftwareBitmap_Copy sourceBitmap;
          (sensorFrame, s2) =
             ref_new (new_SensorFrame (initialTransform pf) (sensorType this) timestamp softwareBitmap) s1
      in
      case extractFrameToOrigin pf this frame sensorFrame s2 of
        Inl e \<Rightarrow> (Throw e, s2)
      | Inr s3 \<Rightarrow>
     (case extractCameraViewTransform pf frame sensorFrame s3 of
        Inl e \<Rightarrow> (Throw e, s3)
      | Inr s4 \<Rightarrow>
     (let s5 = extractCameraIntrinsics pf this frame video softwareBitmap sensorFrame s4;
          (raised, s6) = sendToSink pf this sensorFrame s5
      in
      case raised of
        Some e \<Rightarrow> (Throw e, s6)
      | None \<Rightarrow> (Completed, storeLatest sensorFrame s6)))))))))"

text \<open>
  A run of the handler over a sequence of arrivals, one call per sender: the exits of the
  calls, in order, and the state after the last one.
\<close>

fun arrivals ::
  "Platform \<Rightarrow> MediaFrameReaderContext \<Rightarrow> MediaFrameReader list \<Rightarrow> State \<Rightarrow> Exit list \<times> State" where
  "arrivals pf this [] s = ([], s)"
| "arrivals pf this (sender # rest) s =
     (let (x, s1) = FrameArrived pf this sender s;
          (xs, s2) = arrivals pf this rest s1
      in (x # xs, s2))"

fun is_Trace :: "Event \<Rightarrow> bool" where
  "is_Trace (Trace msg) = True"
| "is_Trace _ = False"

section \<open>Concrete inputs\<close>

text \<open>
  A platform with both logging switches on, whose timestamp helper rejects the time 0,
  whose coordinate system 1 has the identity as its transform to the origin 0, and whose
  sinks never raise; a context for a visible-light camera with a sink; and frames with and
  without metadata.
\<close>

definition ex_identity :: float4x4 where
  "ex_identity = \<lparr> m11 = 0x3f800000, m12 = 0, m13 = 0, m14 = 0,
                   m21 = 0, m22 = 0x3f800000, m23 = 0, m24 = 0,
                   m31 = 0, m32 = 0, m33 = 0x3f800000, m34 = 0,
                   m41 = 0, m42 = 0, m43 = 0, m44 = 0x3f800000 \<rparr>"

definition ex_garbage :: float4x4 where
  "ex_garbage = \<lparr> m11 = 1, m12 = 2, m13 = 3, m14 = 4,
                  m21 = 5, m22 = 6, m23 = 7, m24 = 8,
                  m31 = 9, m32 = 10, m33 = 11, m34 = 12,
                  m41 = 13, m42 = 14, m43 = 15, m44 = 16 \<rparr>"

definition ex_intrinsics_key :: Guid where
  "ex_intrinsics_key = Guid 1 2 3 [4, 5, 6, 7, 8, 9, 10, 11]"

definition ex_platform :: Platform where
  "ex_platform =
     \<lparr> FromHistoricalTargetTime = (\<lambda>t. if t = 0 then Inl (OtherException 1) else Inr 7),
       TryGetTransformTo = (\<lambda>a b. if a = 1 \<and> b = 0 then Inr (Some ex_identity) else Inr None),
       SendRaises = (\<lambda>sink frame. None),
       DBG_ENABLE_VERBOSE_LOGGING = True,
       DBG_ENABLE_ERROR_LOGGING = True,
       MFSampleExtension_SensorStreaming_CameraIntrinsics = ex_intrinsics_key,
       initialTransform = ex_garbage \<rparr>"

definition ex_context :: MediaFrameReaderContext where
  "ex_context =
     \<lparr> sensorType = VisibleLightLeftFront, originCoordinateSystem = Inr 0,
       sensorFrameSink = Some 5, timeConverter = (\<lambda>t. t + 100) \<rparr>"

definition ex_depth_context :: MediaFrameReaderContext where
  "ex_depth_context =
     \<lparr> sensorType = OtherSensorType 1, originCoordinateSystem = Inr 0,
       sensorFrameSink = None, timeConverter = (\<lambda>t. t + 100) \<rparr>"

definition ex_bitmap :: SoftwareBitmap where
  "ex_bitmap = \<lparr> PixelWidth = 160, PixelHeight = 480, PixelData = [1, 2, 3] \<rparr>"

definition ex_wide_bitmap :: SoftwareBitmap where
  "ex_wide_bitmap = \<lparr> PixelWidth = 0x40000000, PixelHeight = 1, PixelData = [] \<rparr>"

definition ex_video :: VideoMediaFrame where
  "ex_video = \<lparr> SoftwareBitmap = Some ex_bitmap, VideoCameraIntrinsics = Some 9 \<rparr>"

text \<open>The identity matrix as 64 bytes: \<^verbatim>\<open>1.0f\<close> is \<^verbatim>\<open>00 00 80 3f\<close> in memory.\<close>

definition ex_bytes :: "byte list" where
  "ex_bytes = [0, 0, 128, 63,  0, 0, 0, 0,  0, 0, 0, 0,  0, 0, 0, 0,
               0, 0, 0, 0,  0, 0, 128, 63,  0, 0, 0, 0,  0, 0, 0, 0,
               0, 0, 0, 0,  0, 0, 0, 0,  0, 0, 128, 63,  0, 0, 0, 0,
               0, 0, 0, 0,  0, 0, 0, 0,  0, 0, 0, 0,  0, 0, 128, 63]"

definition ex_frame :: MediaFrameReference where
  "ex_frame =
     \<lparr> SystemRelativeTime = Some 1000,
       VideoMediaFrame = Some ex_video,
       Properties =
         [c_MFSampleExtension_Spatial_CameraCoordinateSystem \<mapsto> CoordinateSystemObject 1,
          c_MFSampleExtension_Spatial_CameraViewTransform \<mapsto> ByteArrayObject ex_bytes (\<lambda>i. 255),
          ex_intrinsics_key \<mapsto> OtherObject 3] \<rparr>"

text \<open>A frame whose view-transform payload has 4 bytes only, with \<^verbatim>\<open>ff\<close> bytes behind them.\<close>

definition ex_short_frame :: MediaFrameReference where
  "ex_short_frame =
     \<lparr> SystemRelativeTime = Some 1000,
       VideoMediaFrame = Some ex_video,
       Properties =
         [c_MFSampleExtension_Spatial_CameraViewTransform \<mapsto>
            ByteArrayObject [0, 0, 128, 63] (\<lambda>i. 255)] \<rparr>"

definition ex_bare_frame :: MediaFrameReference where
  "ex_bare_frame =
     \<lparr> SystemRelativeTime = Some 2000, VideoMediaFrame = Some ex_video, Properties = Map.empty \<rparr>"

definition ex_wide_video :: VideoMediaFrame where
  "ex_wide_video = \<lparr> SoftwareBitmap = Some ex_wide_bitmap, VideoCameraIntrinsics = None \<rparr>"

definition ex_wide_frame :: MediaFrameReference where
  "ex_wide_frame =
     \<lparr> SystemRelativeTime = Some 3000,
       VideoMediaFrame = Some ex_wide_video,
       Properties = [ex_intrinsics_key \<mapsto> OtherObject 3] \<rparr>"

definition ex_miscast_frame :: MediaFrameReference where
  "ex_miscast_frame =
     \<lparr> SystemRelativeTime = Some 1000,
       VideoMediaFrame = Some ex_video,
       Properties = [c_MFSampleExtension_Spatial_CameraCoordinateSystem \<mapsto> OtherObject 3] \<rparr>"

definition ex_early_frame :: MediaFrameReference where
  "ex_early_frame =
     \<lparr> SystemRelativeTime = Some (- 100), VideoMediaFrame = Some ex_video, Properties = Map.empty \<rparr>"

definition ex_no_video_frame :: MediaFrameReference where
  "ex_no_video_frame =
     \<lparr> SystemRelativeTime = Some 1000, VideoMediaFrame = None, Properties = Map.empty \<rparr>"

definition ex_no_bitmap_frame :: MediaFrameReference where
  "ex_no_bitmap_frame =
     \<lparr> SystemRelativeTime = Some 1000,
       VideoMediaFrame = Some \<lparr> SoftwareBitmap = None, VideoCameraIntrinsics = None \<rparr>,
       Properties = Map.empty \<rparr>"

text \<open>The same platform with sinks that raise whatever they are sent.\<close>

definition ex_raising_platform :: Platform where
  "ex_raising_platform = ex_platform\<lparr> SendRaises := (\<lambda>sink frame. Some (OtherException 2)) \<rparr>"

definition ex_state :: State where
  "ex_state =
     \<lparr> latestSensorFrame = Some 0,
       heap = [new_SensorFrame zero (OtherSensorType 0) 50 ex_bitmap],
       events = [MutexLock, AssignLatest 0, MutexUnlock] \<rparr>"

section \<open>Auxiliary facts about the blocks of the handler\<close>

lemmas ex_defs =
  ex_identity_def ex_garbage_def ex_intrinsics_key_def ex_platform_def ex_context_def
  ex_depth_context_def ex_bitmap_def ex_wide_bitmap_def ex_video_def ex_wide_video_def
  ex_bytes_def ex_frame_def
  ex_short_frame_def ex_bare_frame_def ex_wide_frame_def ex_miscast_frame_def ex_early_frame_def
  ex_no_video_frame_def ex_no_bitmap_frame_def ex_raising_platform_def ex_state_def

lemmas handler_defs =
  FrameArrived_def extractFrameToOrigin_def extractCameraViewTransform_def
  extractCameraIntrinsics_def sendToSink_def storeLatest_def ref_new_def new_SensorFrame_def
  assign_def trace_def trace_if_def Let_def initial_def SoftwareBitmap_Copy_def deref_def
  c_MFSampleExtension_Spatial_CameraCoordinateSystem_def
  c_MFSampleExtension_Spatial_CameraViewTransform_def
  reinterpret_cast_float4x4_def read_memory_def float_at_def zero_def GetLatestSensorFrame_def

lemmas run_defs =
  FrameArrived_def extractFrameToOrigin_def extractCameraViewTransform_def
  extractCameraIntrinsics_def sendToSink_def storeLatest_def ref_new_def new_SensorFrame_def
  assign_def trace_def trace_if_def Let_def initial_def deref_def
  c_MFSampleExtension_Spatial_CameraCoordinateSystem_def
  c_MFSampleExtension_Spatial_CameraViewTransform_def

lemmas run_ex_defs =
  ex_intrinsics_key_def ex_platform_def ex_context_def ex_video_def ex_wide_video_def
  ex_bare_frame_def ex_wide_frame_def ex_miscast_frame_def ex_early_frame_def

lemma assign_fields [simp]:
  "latestSensorFrame (assign r f s) = latestSensorFrame s"
  "events (assign r f s) = events s"
  by (simp_all add: assign_def)

lemma assign_fresh:
  "heap s = h @ [x] \<Longrightarrow> heap (assign (length h) f s) = h @ [f x]"
  by (simp add: assign_def)

lemma trace_if_fields [simp]:
  "latestSensorFrame (trace_if b m s) = latestSensorFrame s"
  "heap (trace_if b m s) = heap s"
  "events (trace_if b m s) = events s @ (if b then [Trace m] else [])"
  by (simp_all add: trace_if_def trace_def)

lemma sendToSink_fields [simp]:
  "latestSensorFrame (snd (sendToSink pf this r s)) = latestSensorFrame s"
  "heap (snd (sendToSink pf this r s)) = heap s"
  "events (snd (sendToSink pf this r s)) =
     events s @ (case sensorFrameSink this of Some sink \<Rightarrow> [Send sink r] | None \<Rightarrow> [])"
  by (simp_all add: sendToSink_def split: option.splits)

lemma storeLatest_fields [simp]:
  "latestSensorFrame (storeLatest r s) = Some r"
  "heap (storeLatest r s) = heap s"
  "events (storeLatest r s) = events s @ [MutexLock, AssignLatest r, MutexUnlock]"
  by (simp_all add: storeLatest_def Let_def)

lemma safe_cast_SpatialCoordinateSystem_iff [simp]:
  "safe_cast_SpatialCoordinateSystem obj = Inr (Some cs) \<longleftrightarrow> obj = CoordinateSystemObject cs"
  "safe_cast_SpatialCoordinateSystem obj = Inr None \<longleftrightarrow> obj = Null"
  by (cases obj; simp)+

lemma safe_cast_IBoxArray_iff [simp]:
  "safe_cast_IBoxArray obj = Inr (Some (bs, beyond)) \<longleftrightarrow> obj = ByteArrayObject bs beyond"
  "safe_cast_IBoxArray obj = Inr None \<longleftrightarrow> obj = Null"
  by (cases obj; simp)+

lemma extractFrameToOrigin_Inr_last:
  assumes "extractFrameToOrigin pf this frame (length h) s = Inr s'" and "heap s = h @ [x]"
  shows "heap s' = h @ [x\<lparr>FrameToOrigin := FrameToOrigin (last (heap s'))\<rparr>]"
    and "(case Properties frame c_MFSampleExtension_Spatial_CameraCoordinateSystem of
            None \<Rightarrow> FrameToOrigin (last (heap s')) = zero
          | Some obj \<Rightarrow>
              (case obj of
                 Null \<Rightarrow> FrameToOrigin (last (heap s')) = zero
               | CoordinateSystemObject cs \<Rightarrow>
                   (\<exists>origin. originCoordinateSystem this = Inr origin \<and>
                      ((TryGetTransformTo pf cs origin = Inr None \<and>
                        FrameToOrigin (last (heap s')) = zero) \<or>
                       TryGetTransformTo pf cs origin = Inr (Some (FrameToOrigin (last (heap s'))))))
               | _ \<Rightarrow> False))"
  using assms
  by (auto simp add: extractFrameToOrigin_def assign_fresh
        split: option.splits sum.splits Object.splits)

lemma extractFrameToOrigin_Inr:
  assumes "extractFrameToOrigin pf this frame (length h) s = Inr s'" and "heap s = h @ [x]"
  shows "latestSensorFrame s' = latestSensorFrame s"
    and "\<exists>v. heap s' = h @ [x\<lparr>FrameToOrigin := v\<rparr>] \<and>
         (case Properties frame c_MFSampleExtension_Spatial_CameraCoordinateSystem of
            None \<Rightarrow> v = zero
          | Some obj \<Rightarrow>
              (case obj of
                 Null \<Rightarrow> v = zero
               | CoordinateSystemObject cs \<Rightarrow>
                   (\<exists>origin. originCoordinateSystem this = Inr origin \<and>
                      ((TryGetTransformTo pf cs origin = Inr None \<and> v = zero) \<or>
                       TryGetTransformTo pf cs origin = Inr (Some v)))
               | _ \<Rightarrow> False))"
    and "\<exists>tr. events s' = events s @ tr \<and> list_all is_Trace tr"
proof -
  from assms show "latestSensorFrame s' = latestSensorFrame s"
    by (auto simp add: extractFrameToOrigin_def split: option.splits sum.splits)
  from assms show "\<exists>tr. events s' = events s @ tr \<and> list_all is_Trace tr"
    by (auto simp add: extractFrameToOrigin_def split: option.splits sum.splits)
  from extractFrameToOrigin_Inr_last [OF assms]
  show "\<exists>v. heap s' = h @ [x\<lparr>FrameToOrigin := v\<rparr>] \<and>
         (case Properties frame c_MFSampleExtension_Spatial_CameraCoordinateSystem of
            None \<Rightarrow> v = zero
          | Some obj \<Rightarrow>
              (case obj of
                 Null \<Rightarrow> v = zero
               | CoordinateSystemObject cs \<Rightarrow>
                   (\<exists>origin. originCoordinateSystem this = Inr origin \<and>
                      ((TryGetTransformTo pf cs origin = Inr None \<and> v = zero) \<or>
                       TryGetTransformTo pf cs origin = Inr (Some v)))
               | _ \<Rightarrow> False))"
    by (intro exI [of _ "FrameToOrigin (last (heap s'))"] conjI)
qed


lemma extractCameraViewTransform_Inr:
  assumes "extractCameraViewTransform pf frame (length h) s = Inr s'" and "heap s = h @ [x]"
  shows "latestSensorFrame s' = latestSensorFrame s"
    and "\<exists>v. heap s' = h @ [x\<lparr>CameraViewTransform := v\<rparr>] \<and>
         (case Properties frame c_MFSampleExtension_Spatial_CameraViewTransform of
            None \<Rightarrow> v = zero
          | Some obj \<Rightarrow>
              (case obj of
                 ByteArrayObject bs beyond \<Rightarrow> v = reinterpret_cast_float4x4 bs beyond
               | _ \<Rightarrow> False))"
    and "\<exists>tr. events s' = events s @ tr \<and> list_all is_Trace tr"
  using assms
  by (auto simp add: extractCameraViewTransform_def assign_fresh
        split: option.splits sum.splits Object.splits)

lemma extractCameraIntrinsics_fields:
  assumes "heap s = h @ [x]"
  shows "latestSensorFrame (extractCameraIntrinsics pf this frame video bmp (length h) s) =
           latestSensorFrame s"
    and "events (extractCameraIntrinsics pf this frame video bmp (length h) s) = events s"
    and "heap (extractCameraIntrinsics pf this frame video bmp (length h) s) =
          h @ [case Properties frame (MFSampleExtension_SensorStreaming_CameraIntrinsics pf) of
                 None \<Rightarrow> x
               | Some obj \<Rightarrow>
                   x\<lparr> FrameCameraIntrinsics :=
                        Some \<lparr> SensorStreamingCameraIntrinsics = obj,
                               ImageWidth =
                                 (if sensorType this \<in> {VisibleLightLeftFront, VisibleLightLeftLeft,
                                                          VisibleLightRightFront, VisibleLightRightRight}
                                  then PixelWidth bmp * 4 else PixelWidth bmp),
                               ImageHeight = PixelHeight bmp \<rparr> \<rparr>]"
  using assms
  by (auto simp add: extractCameraIntrinsics_def assign_fresh Let_def split: option.splits)

section \<open>The paths through the handler\<close>

lemma FrameArrived_Completed_steps:
  assumes "FrameArrived pf this sender s = (Completed, s')"
  shows "\<exists>frame video bmp d pt s1 s2 s3 s4 s5.
     TryAcquireLatestFrame sender = Some frame \<and> VideoMediaFrame frame = Some video \<and>
     SoftwareBitmap video = Some bmp \<and> SystemRelativeTime frame = Some d \<and>
     FromHistoricalTargetTime pf (timeConverter this d) = Inr pt \<and>
     s1 = trace_if (DBG_ENABLE_VERBOSE_LOGGING pf)
            ''MediaFrameReaderContext::FrameArrived: _sensorType=%s (%i), timestamp=%llu (relative)'' s \<and>
     s2 = s1\<lparr> heap := heap s1 @ [new_SensorFrame (initialTransform pf) (sensorType this)
                (timeConverter this d) (SoftwareBitmap_Copy bmp)] \<rparr> \<and>
     extractFrameToOrigin pf this frame (length (heap s)) s2 = Inr s3 \<and>
     extractCameraViewTransform pf frame (length (heap s)) s3 = Inr s4 \<and>
     s5 = extractCameraIntrinsics pf this frame video (SoftwareBitmap_Copy bmp) (length (heap s)) s4 \<and>
     fst (sendToSink pf this (length (heap s)) s5) = None \<and>
     s' = storeLatest (length (heap s)) (snd (sendToSink pf this (length (heap s)) s5))"
  using assms
  by (auto simp add: FrameArrived_def ref_new_def Let_def split_beta
        split: option.splits sum.splits)

text \<open>
  A call that does not reach the last line leaves the slot as it was, and leaves the
  objects allocated before it as they were.
\<close>

lemma FrameArrived_not_Completed:
  assumes "fst (FrameArrived pf this sender s) \<noteq> Completed"
  shows "latestSensorFrame (snd (FrameArrived pf this sender s)) = latestSensorFrame s"
    and "\<exists>new. heap (snd (FrameArrived pf this sender s)) = heap s @ new"
proof -
  have "latestSensorFrame (snd (FrameArrived pf this sender s)) = latestSensorFrame s \<and>
        (\<exists>new. heap (snd (FrameArrived pf this sender s)) = heap s @ new)"
  proof (cases "TryAcquireLatestFrame sender")
    case None
    then show ?thesis by (simp add: FrameArrived_def trace_def)
  next
    case frame: (Some frame)
    show ?thesis
    proof (cases "VideoMediaFrame frame")
      case None
      with frame show ?thesis by (simp add: FrameArrived_def trace_def)
    next
      case video: (Some video)
      show ?thesis
      proof (cases "SoftwareBitmap video")
        case None
        with frame video show ?thesis by (simp add: FrameArrived_def trace_def)
      next
        case bmp: (Some bmp)
        show ?thesis
        proof (cases "SystemRelativeTime frame")
          case None
          with frame video bmp show ?thesis by (simp add: FrameArrived_def)
        next
          case d: (Some d)
          show ?thesis
          proof (cases "FromHistoricalTargetTime pf (timeConverter this d)")
            case (Inl e)
            with frame video bmp d show ?thesis by (simp add: FrameArrived_def Let_def)
          next
            case pt: (Inr pt)
            let ?s1 = "trace_if (DBG_ENABLE_VERBOSE_LOGGING pf)
              ''MediaFrameReaderContext::FrameArrived: _sensorType=%s (%i), timestamp=%llu (relative)'' s"
            let ?x = "new_SensorFrame (initialTransform pf) (sensorType this) (timeConverter this d)
                        (SoftwareBitmap_Copy bmp)"
            let ?s2 = "?s1\<lparr> heap := heap ?s1 @ [?x] \<rparr>"
            have h2: "heap ?s2 = heap s @ [?x]" by simp
            show ?thesis
            proof (cases "extractFrameToOrigin pf this frame (length (heap s)) ?s2")
              case (Inl e)
              with frame video bmp d pt show ?thesis
                by (simp add: FrameArrived_def Let_def ref_new_def)
            next
              case s3: (Inr s3)
              from extractFrameToOrigin_Inr [OF s3 h2]
              obtain v where l3: "latestSensorFrame s3 = latestSensorFrame ?s2"
                and h3: "heap s3 = heap s @ [?x\<lparr>FrameToOrigin := v\<rparr>]"
                by blast
              show ?thesis
              proof (cases "extractCameraViewTransform pf frame (length (heap s)) s3")
                case (Inl e)
                with frame video bmp d pt s3 l3 h3 show ?thesis
                  by (simp add: FrameArrived_def Let_def ref_new_def)
              next
                case s4: (Inr s4)
                from extractCameraViewTransform_Inr [OF s4 h3]
                obtain w where l4: "latestSensorFrame s4 = latestSensorFrame s3"
                  and h4: "heap s4 = heap s @ [?x\<lparr>FrameToOrigin := v, CameraViewTransform := w\<rparr>]"
                  by blast
                let ?s5 = "extractCameraIntrinsics pf this frame video (SoftwareBitmap_Copy bmp)
                             (length (heap s)) s4"
                show ?thesis
                proof (cases "fst (sendToSink pf this (length (heap s)) ?s5)")
                  case None
                  with frame video bmp d pt s3 s4
                  have "fst (FrameArrived pf this sender s) = Completed"
                    by (simp add: FrameArrived_def Let_def ref_new_def split_beta)
                  with assms show ?thesis by simp
                next
                  case (Some e)
                  with frame video bmp d pt s3 s4 l3 l4 show ?thesis
                    by (simp add: FrameArrived_def Let_def ref_new_def split_beta
                          extractCameraIntrinsics_fields [OF h4])
                qed
              qed
            qed
          qed
        qed
      qed
    qed
  qed
  then show "latestSensorFrame (snd (FrameArrived pf this sender s)) = latestSensorFrame s"
    and "\<exists>new. heap (snd (FrameArrived pf this sender s)) = heap s @ new"
    by blast+
qed

text \<open>
  A call that reaches the last line: what it allocated, assigned and emitted, written out.
\<close>

lemma FrameArrived_Completed:
  assumes "FrameArrived pf this sender s = (Completed, s')"
  shows "\<exists>frame video bmp d fto cvt tr.
     TryAcquireLatestFrame sender = Some frame \<and> VideoMediaFrame frame = Some video \<and>
     SoftwareBitmap video = Some bmp \<and> SystemRelativeTime frame = Some d \<and>
     latestSensorFrame s' = Some (length (heap s)) \<and>
     heap s' = heap s @
       [\<lparr> FrameType = sensorType this, Timestamp = timeConverter this d,
          Bitmap = SoftwareBitmap_Copy bmp, FrameToOrigin = fto, CameraViewTransform = cvt,
          FrameCameraIntrinsics =
            (case Properties frame (MFSampleExtension_SensorStreaming_CameraIntrinsics pf) of
               None \<Rightarrow> None
             | Some obj \<Rightarrow>
                 Some \<lparr> SensorStreamingCameraIntrinsics = obj,
                        ImageWidth =
                          (if sensorType this \<in> {VisibleLightLeftFront, VisibleLightLeftLeft,
                                                   VisibleLightRightFront, VisibleLightRightRight}
                           then PixelWidth bmp * 4 else PixelWidth bmp),
                        ImageHeight = PixelHeight bmp \<rparr>) \<rparr>] \<and>
     (case Properties frame c_MFSampleExtension_Spatial_CameraCoordinateSystem of
        None \<Rightarrow> fto = zero
      | Some obj \<Rightarrow>
          (case obj of
             Null \<Rightarrow> fto = zero
           | CoordinateSystemObject cs \<Rightarrow>
               (\<exists>origin. originCoordinateSystem this = Inr origin \<and>
                  ((TryGetTransformTo pf cs origin = Inr None \<and> fto = zero) \<or>
                   TryGetTransformTo pf cs origin = Inr (Some fto)))
           | _ \<Rightarrow> False)) \<and>
     (case Properties frame c_MFSampleExtension_Spatial_CameraViewTransform of
        None \<Rightarrow> cvt = zero
      | Some obj \<Rightarrow>
          (case obj of
             ByteArrayObject bs beyond \<Rightarrow> cvt = reinterpret_cast_float4x4 bs beyond
           | _ \<Rightarrow> False)) \<and>
     events s' = events s @ tr @
       (case sensorFrameSink this of Some sink \<Rightarrow> [Send sink (length (heap s))] | None \<Rightarrow> []) @
       [MutexLock, AssignLatest (length (heap s)), MutexUnlock] \<and>
     list_all is_Trace tr"
proof -
  from FrameArrived_Completed_steps [OF assms]
  obtain frame video bmp d s1 s2 s3 s4 s5 where
    in1: "TryAcquireLatestFrame sender = Some frame" "VideoMediaFrame frame = Some video"
         "SoftwareBitmap video = Some bmp" "SystemRelativeTime frame = Some d"
    and s1: "s1 = trace_if (DBG_ENABLE_VERBOSE_LOGGING pf)
            ''MediaFrameReaderContext::FrameArrived: _sensorType=%s (%i), timestamp=%llu (relative)'' s"
    and s2: "s2 = s1\<lparr> heap := heap s1 @ [new_SensorFrame (initialTransform pf) (sensorType this)
                (timeConverter this d) (SoftwareBitmap_Copy bmp)] \<rparr>"
    and s3: "extractFrameToOrigin pf this frame (length (heap s)) s2 = Inr s3"
    and s4: "extractCameraViewTransform pf frame (length (heap s)) s3 = Inr s4"
    and s5: "s5 = extractCameraIntrinsics pf this frame video (SoftwareBitmap_Copy bmp)
                    (length (heap s)) s4"
    and s': "s' = storeLatest (length (heap s)) (snd (sendToSink pf this (length (heap s)) s5))"
    by blast
  let ?x = "new_SensorFrame (initialTransform pf) (sensorType this) (timeConverter this d)
              (SoftwareBitmap_Copy bmp)"
  have h2: "heap s2 = heap s @ [?x]"
    by (simp add: s1 s2)
  obtain tr2 where e2: "events s2 = events s @ tr2" "list_all is_Trace tr2"
    by (simp add: s1 s2)
  from extractFrameToOrigin_Inr [OF s3 h2]
  obtain fto tr3 where
    h3: "heap s3 = heap s @ [?x\<lparr>FrameToOrigin := fto\<rparr>]"
    and fto: "(case Properties frame c_MFSampleExtension_Spatial_CameraCoordinateSystem of
        None \<Rightarrow> fto = zero
      | Some obj \<Rightarrow>
          (case obj of
             Null \<Rightarrow> fto = zero
           | CoordinateSystemObject cs \<Rightarrow>
               (\<exists>origin. originCoordinateSystem this = Inr origin \<and>
                  ((TryGetTransformTo pf cs origin = Inr None \<and> fto = zero) \<or>
                   TryGetTransformTo pf cs origin = Inr (Some fto)))
           | _ \<Rightarrow> False))"
    and e3: "events s3 = events s2 @ tr3" "list_all is_Trace tr3"
    by blast
  from extractCameraViewTransform_Inr [OF s4 h3]
  obtain cvt tr4 where
    h4: "heap s4 = heap s @ [?x\<lparr>FrameToOrigin := fto, CameraViewTransform := cvt\<rparr>]"
    and cvt: "(case Properties frame c_MFSampleExtension_Spatial_CameraViewTransform of
        None \<Rightarrow> cvt = zero
      | Some obj \<Rightarrow>
          (case obj of
             ByteArrayObject bs beyond \<Rightarrow> cvt = reinterpret_cast_float4x4 bs beyond
           | _ \<Rightarrow> False))"
    and e4: "events s4 = events s3 @ tr4" "list_all is_Trace tr4"
    by blast
  have ev: "events s' = events s @ (tr2 @ tr3 @ tr4) @
       (case sensorFrameSink this of Some sink \<Rightarrow> [Send sink (length (heap s))] | None \<Rightarrow> []) @
       [MutexLock, AssignLatest (length (heap s)), MutexUnlock]"
    by (simp add: s' s5 extractCameraIntrinsics_fields(2) [OF h4] e4 e3 e2)
  have tr: "list_all is_Trace (tr2 @ tr3 @ tr4)"
    using e2 e3 e4 by simp
  have hp: "heap s' = heap s @
       [\<lparr> FrameType = sensorType this, Timestamp = timeConverter this d,
          Bitmap = SoftwareBitmap_Copy bmp, FrameToOrigin = fto, CameraViewTransform = cvt,
          FrameCameraIntrinsics =
            (case Properties frame (MFSampleExtension_SensorStreaming_CameraIntrinsics pf) of
               None \<Rightarrow> None
             | Some obj \<Rightarrow>
                 Some \<lparr> SensorStreamingCameraIntrinsics = obj,
                        ImageWidth =
                          (if sensorType this \<in> {VisibleLightLeftFront, VisibleLightLeftLeft,
                                                   VisibleLightRightFront, VisibleLightRightRight}
                           then PixelWidth bmp * 4 else PixelWidth bmp),
                        ImageHeight = PixelHeight bmp \<rparr>) \<rparr>]"
    by (simp add: s' s5 extractCameraIntrinsics_fields(3) [OF h4] new_SensorFrame_def
          SoftwareBitmap_Copy_def split: option.splits)
  have lt: "latestSensorFrame s' = Some (length (heap s))"
    by (simp add: s')
  from in1 lt hp fto cvt ev tr show ?thesis
    by blast
qed

text \<open>The objects allocated before a call are still there, unchanged, after it.\<close>

lemma FrameArrived_heap_extends:
  "\<exists>new. heap (snd (FrameArrived pf this sender s)) = heap s @ new"
proof (cases "fst (FrameArrived pf this sender s) = Completed")
  case True
  then have "FrameArrived pf this sender s = (Completed, snd (FrameArrived pf this sender s))"
    by (simp add: prod_eq_iff)
  from FrameArrived_Completed [OF this] show ?thesis
    by blast
next
  case False
  from FrameArrived_not_Completed(2) [OF this] show ?thesis .
qed

section \<open>Missing data and failed timestamps\<close>

text \<open>
  Claim C2. When the acquired frame is null, or its \<^verbatim>\<open>VideoMediaFrame\<close> is null, or that
  one's \<^verbatim>\<open>SoftwareBitmap\<close> is null, the handler returns at the matching \<^verbatim>\<open>return\<close> after one
  call of \<^verbatim>\<open>dbg::trace\<close> and nothing else: the state differs from the one before only by
  that trace event, so the slot and the heap are unchanged and nothing was sent.
\<close>

theorem FrameArrived_missing_data:
  assumes "TryAcquireLatestFrame sender = None \<or>
           (\<exists>frame. TryAcquireLatestFrame sender = Some frame \<and>
              (VideoMediaFrame frame = None \<or>
               (\<exists>video. VideoMediaFrame frame = Some video \<and> SoftwareBitmap video = None)))"
  shows "fst (FrameArrived pf this sender s) \<in>
           {ReturnFrameNull, ReturnVideoMediaFrameNull, ReturnSoftwareBitmapNull} \<and>
         (\<exists>msg. snd (FrameArrived pf this sender s) = s\<lparr> events := events s @ [Trace msg] \<rparr>) \<and>
         latestSensorFrame (snd (FrameArrived pf this sender s)) = latestSensorFrame s \<and>
         heap (snd (FrameArrived pf this sender s)) = heap s \<and>
         (\<forall>sink r. Send sink r \<in> set (events (snd (FrameArrived pf this sender s)))
                     \<longrightarrow> Send sink r \<in> set (events s))"
  using assms
  by (auto simp add: FrameArrived_def trace_def split: option.splits)

theorem FrameArrived_missing_data_witness:
  "fst (FrameArrived ex_platform ex_context \<lparr> TryAcquireLatestFrame = None \<rparr> ex_state)
     = ReturnFrameNull \<and>
   latestSensorFrame (snd (FrameArrived ex_platform ex_context
     \<lparr> TryAcquireLatestFrame = None \<rparr> ex_state)) = Some 0 \<and>
   fst (FrameArrived ex_platform ex_context \<lparr> TryAcquireLatestFrame = Some ex_no_video_frame \<rparr> ex_state)
     = ReturnVideoMediaFrameNull \<and>
   heap (snd (FrameArrived ex_platform ex_context
     \<lparr> TryAcquireLatestFrame = Some ex_no_video_frame \<rparr> ex_state)) = heap ex_state \<and>
   fst (FrameArrived ex_platform ex_context \<lparr> TryAcquireLatestFrame = Some ex_no_bitmap_frame \<rparr> ex_state)
     = ReturnSoftwareBitmapNull \<and>
   latestSensorFrame (snd (FrameArrived ex_platform ex_context
     \<lparr> TryAcquireLatestFrame = Some ex_no_bitmap_frame \<rparr> ex_state)) = Some 0"
proof -
  have h1: "TryAcquireLatestFrame \<lparr> TryAcquireLatestFrame = None \<rparr> = None \<or>
           (\<exists>frame. TryAcquireLatestFrame \<lparr> TryAcquireLatestFrame = None \<rparr> = Some frame \<and>
              (VideoMediaFrame frame = None \<or>
               (\<exists>video. VideoMediaFrame frame = Some video \<and> SoftwareBitmap video = None)))"
    by simp
  have h2: "TryAcquireLatestFrame \<lparr> TryAcquireLatestFrame = Some ex_no_video_frame \<rparr> = None \<or>
           (\<exists>frame. TryAcquireLatestFrame \<lparr> TryAcquireLatestFrame = Some ex_no_video_frame \<rparr> = Some frame \<and>
              (VideoMediaFrame frame = None \<or>
               (\<exists>video. VideoMediaFrame frame = Some video \<and> SoftwareBitmap video = None)))"
    by (simp add: ex_no_video_frame_def)
  have h3: "TryAcquireLatestFrame \<lparr> TryAcquireLatestFrame = Some ex_no_bitmap_frame \<rparr> = None \<or>
           (\<exists>frame. TryAcquireLatestFrame \<lparr> TryAcquireLatestFrame = Some ex_no_bitmap_frame \<rparr> = Some frame \<and>
              (VideoMediaFrame frame = None \<or>
               (\<exists>video. VideoMediaFrame frame = Some video \<and> SoftwareBitmap video = None)))"
    by (simp add: ex_no_bitmap_frame_def)
  show ?thesis
    using FrameArrived_missing_data [OF h1, of ex_platform ex_context ex_state]
      FrameArrived_missing_data [OF h2, of ex_platform ex_context ex_state]
      FrameArrived_missing_data [OF h3, of ex_platform ex_context ex_state]
    by (simp add: FrameArrived_def ex_no_video_frame_def ex_no_bitmap_frame_def ex_state_def trace_def)
qed

text \<open>
  Claim C3. When \<^verbatim>\<open>FromHistoricalTargetTime\<close> raises for the converted timestamp, the handler
  returns from its \<^verbatim>\<open>catch\<close> block: no \<^verbatim>\<open>SensorFrame\<close> was allocated (the heap is the one
  before), the slot is unchanged, and the only events added are traces, so \<^verbatim>\<open>Send\<close> was not
  called.
\<close>

theorem FrameArrived_timestamp_failure:
  assumes "TryAcquireLatestFrame sender = Some frame"
    and "VideoMediaFrame frame = Some video"
    and "SoftwareBitmap video = Some bitmap"
    and "SystemRelativeTime frame = Some duration"
    and "FromHistoricalTargetTime pf (timeConverter this duration) = Inl exception"
  shows "fst (FrameArrived pf this sender s) = ReturnTimestampFailed \<and>
         heap (snd (FrameArrived pf this sender s)) = heap s \<and>
         latestSensorFrame (snd (FrameArrived pf this sender s)) = latestSensorFrame s \<and>
         (\<exists>tr. events (snd (FrameArrived pf this sender s)) = events s @ tr \<and> list_all is_Trace tr)"
  using assms
  by (simp add: FrameArrived_def Let_def)

theorem FrameArrived_timestamp_failure_witness:
  "FromHistoricalTargetTime ex_platform (timeConverter ex_context (- 100)) = Inl (OtherException 1) \<and>
   fst (FrameArrived ex_platform ex_context \<lparr> TryAcquireLatestFrame = Some ex_early_frame \<rparr> ex_state)
     = ReturnTimestampFailed \<and>
   heap (snd (FrameArrived ex_platform ex_context
     \<lparr> TryAcquireLatestFrame = Some ex_early_frame \<rparr> ex_state)) = heap ex_state \<and>
   latestSensorFrame (snd (FrameArrived ex_platform ex_context
     \<lparr> TryAcquireLatestFrame = Some ex_early_frame \<rparr> ex_state)) = Some 0"
proof -
  have h1: "TryAcquireLatestFrame \<lparr> TryAcquireLatestFrame = Some ex_early_frame \<rparr> = Some ex_early_frame"
    by simp
  have h2: "VideoMediaFrame ex_early_frame = Some ex_video"
    by (simp add: ex_early_frame_def)
  have h3: "SoftwareBitmap ex_video = Some ex_bitmap"
    by (simp add: ex_video_def)
  have h4: "SystemRelativeTime ex_early_frame = Some (- 100)"
    by (simp add: ex_early_frame_def)
  have h5: "FromHistoricalTargetTime ex_platform (timeConverter ex_context (- 100)) = Inl (OtherException 1)"
    by (simp add: ex_platform_def ex_context_def)
  show ?thesis
    using FrameArrived_timestamp_failure [OF h1 h2 h3 h4 h5, of ex_state] h5
    by (simp add: ex_state_def)
qed

section \<open>The latest-frame slot\<close>

text \<open>
  Claim C10. \<^verbatim>\<open>GetLatestSensorFrame\<close> returns the content of the slot and leaves the slot
  and the heap as they were; a second call right after the first returns the same
  reference.
\<close>

theorem GetLatestSensorFrame_pure:
  "fst (GetLatestSensorFrame s) = latestSensorFrame s \<and>
   latestSensorFrame (snd (GetLatestSensorFrame s)) = latestSensorFrame s \<and>
   heap (snd (GetLatestSensorFrame s)) = heap s \<and>
   fst (GetLatestSensorFrame (snd (GetLatestSensorFrame s))) = fst (GetLatestSensorFrame s)"
  by (simp add: GetLatestSensorFrame_def Let_def)

section \<open>Failures the handler contains, and one it does not\<close>




section \<open>The produced frame\<close>

text \<open>The object behind the slot after a call that reached the last line.\<close>

lemma FrameArrived_produced:
  assumes "fst (FrameArrived pf this sender s) = Completed"
    and "TryAcquireLatestFrame sender = Some frame"
    and "VideoMediaFrame frame = Some video"
    and "SoftwareBitmap video = Some bmp"
  shows "\<exists>d fto cvt.
     SystemRelativeTime frame = Some d \<and>
     latestSensorFrame (snd (FrameArrived pf this sender s)) = Some (length (heap s)) \<and>
     length (heap (snd (FrameArrived pf this sender s))) = Suc (length (heap s)) \<and>
     deref (snd (FrameArrived pf this sender s)) (length (heap s)) =
       Some \<lparr> FrameType = sensorType this, Timestamp = timeConverter this d,
          Bitmap = SoftwareBitmap_Copy bmp, FrameToOrigin = fto, CameraViewTransform = cvt,
          FrameCameraIntrinsics =
            (case Properties frame (MFSampleExtension_SensorStreaming_CameraIntrinsics pf) of
               None \<Rightarrow> None
             | Some obj \<Rightarrow>
                 Some \<lparr> SensorStreamingCameraIntrinsics = obj,
                        ImageWidth =
                          (if sensorType this \<in> {VisibleLightLeftFront, VisibleLightLeftLeft,
                                                   VisibleLightRightFront, VisibleLightRightRight}
                           then PixelWidth bmp * 4 else PixelWidth bmp),
                        ImageHeight = PixelHeight bmp \<rparr>) \<rparr> \<and>
     (case Properties frame c_MFSampleExtension_Spatial_CameraCoordinateSystem of
        None \<Rightarrow> fto = zero
      | Some obj \<Rightarrow>
          (case obj of
             Null \<Rightarrow> fto = zero
           | CoordinateSystemObject cs \<Rightarrow>
               (\<exists>origin. originCoordinateSystem this = Inr origin \<and>
                  ((TryGetTransformTo pf cs origin = Inr None \<and> fto = zero) \<or>
                   TryGetTransformTo pf cs origin = Inr (Some fto)))
           | _ \<Rightarrow> False)) \<and>
     (case Properties frame c_MFSampleExtension_Spatial_CameraViewTransform of
        None \<Rightarrow> cvt = zero
      | Some obj \<Rightarrow>
          (case obj of
             ByteArrayObject bs beyond \<Rightarrow> cvt = reinterpret_cast_float4x4 bs beyond
           | _ \<Rightarrow> False))"
proof -
  have "FrameArrived pf this sender s = (Completed, snd (FrameArrived pf this sender s))"
    using assms(1) by (simp add: prod_eq_iff)
  from FrameArrived_Completed [OF this] assms(2-4) show ?thesis
    by (fastforce simp add: deref_def)
qed

lemma FrameArrived_Completed_frame:
  assumes "fst (FrameArrived pf this sender s) = Completed"
  shows "\<exists>frame video bmp. TryAcquireLatestFrame sender = Some frame \<and>
           VideoMediaFrame frame = Some video \<and> SoftwareBitmap video = Some bmp"
  using assms
  by (auto simp add: FrameArrived_def split: option.splits)

text \<open>
  Claim C4. After a call that reached the last line, the object in the slot has as its
  \<^verbatim>\<open>FrameToOrigin\<close>: the all-zero matrix when the origin-transform key is absent; the
  all-zero matrix when the key holds a coordinate system for which \<^verbatim>\<open>TryGetTransformTo\<close>
  (to the origin coordinate system) returns null (and also when the key holds a null
  value, for which no transform is looked up); and the value \<^verbatim>\<open>TryGetTransformTo\<close> returns
  otherwise. No other case can reach the last line: with a coordinate system under the
  key, the origin coordinate system was obtained and \<^verbatim>\<open>TryGetTransformTo\<close> returned.
\<close>

theorem FrameArrived_FrameToOrigin:
  assumes "fst (FrameArrived pf this sender s) = Completed"
    and "TryAcquireLatestFrame sender = Some frame"
  shows "\<exists>r sf. latestSensorFrame (snd (FrameArrived pf this sender s)) = Some r \<and>
           deref (snd (FrameArrived pf this sender s)) r = Some sf \<and>
           (Properties frame c_MFSampleExtension_Spatial_CameraCoordinateSystem = None
              \<longrightarrow> FrameToOrigin sf = zero) \<and>
           (Properties frame c_MFSampleExtension_Spatial_CameraCoordinateSystem = Some Null
              \<longrightarrow> FrameToOrigin sf = zero) \<and>
           (\<forall>cs origin. Properties frame c_MFSampleExtension_Spatial_CameraCoordinateSystem
                    = Some (CoordinateSystemObject cs) \<and>
                  originCoordinateSystem this = Inr origin \<and>
                  TryGetTransformTo pf cs origin = Inr None
              \<longrightarrow> FrameToOrigin sf = zero) \<and>
           (\<forall>cs origin v. Properties frame c_MFSampleExtension_Spatial_CameraCoordinateSystem
                    = Some (CoordinateSystemObject cs) \<and>
                  originCoordinateSystem this = Inr origin \<and>
                  TryGetTransformTo pf cs origin = Inr (Some v)
              \<longrightarrow> FrameToOrigin sf = v) \<and>
           (Properties frame c_MFSampleExtension_Spatial_CameraCoordinateSystem = None \<or>
            Properties frame c_MFSampleExtension_Spatial_CameraCoordinateSystem = Some Null \<or>
            (\<exists>cs origin res.
               Properties frame c_MFSampleExtension_Spatial_CameraCoordinateSystem
                 = Some (CoordinateSystemObject cs) \<and>
               originCoordinateSystem this = Inr origin \<and>
               TryGetTransformTo pf cs origin = Inr res))"
proof -
  from FrameArrived_Completed_frame [OF assms(1)] assms(2)
  obtain video bmp where "VideoMediaFrame frame = Some video" "SoftwareBitmap video = Some bmp"
    by auto
  from FrameArrived_produced [OF assms this] show ?thesis
    by (fastforce split: option.splits Object.splits)
qed

theorem FrameArrived_FrameToOrigin_witness:
  "fst (FrameArrived ex_platform ex_context \<lparr> TryAcquireLatestFrame = Some ex_frame \<rparr> ex_state)
     = Completed \<and>
   (\<exists>r sf. latestSensorFrame (snd (FrameArrived ex_platform ex_context
               \<lparr> TryAcquireLatestFrame = Some ex_frame \<rparr> ex_state)) = Some r \<and>
           deref (snd (FrameArrived ex_platform ex_context
               \<lparr> TryAcquireLatestFrame = Some ex_frame \<rparr> ex_state)) r = Some sf \<and>
           FrameToOrigin sf = ex_identity) \<and>
   fst (FrameArrived ex_platform ex_context \<lparr> TryAcquireLatestFrame = Some ex_bare_frame \<rparr> ex_state)
     = Completed \<and>
   (\<exists>r sf. latestSensorFrame (snd (FrameArrived ex_platform ex_context
               \<lparr> TryAcquireLatestFrame = Some ex_bare_frame \<rparr> ex_state)) = Some r \<and>
           deref (snd (FrameArrived ex_platform ex_context
               \<lparr> TryAcquireLatestFrame = Some ex_bare_frame \<rparr> ex_state)) r = Some sf \<and>
           FrameToOrigin sf = zero)"
proof -
  have a1: "fst (FrameArrived ex_platform ex_context \<lparr> TryAcquireLatestFrame = Some ex_frame \<rparr> ex_state)
     = Completed"
    by (simp add: ex_defs handler_defs)
  have a2: "TryAcquireLatestFrame \<lparr> TryAcquireLatestFrame = Some ex_frame \<rparr> = Some ex_frame"
    by simp
  have a3: "Properties ex_frame c_MFSampleExtension_Spatial_CameraCoordinateSystem
              = Some (CoordinateSystemObject 1) \<and>
            originCoordinateSystem ex_context = Inr 0 \<and>
            TryGetTransformTo ex_platform 1 0 = Inr (Some ex_identity)"
    by (simp add: ex_frame_def ex_platform_def ex_context_def ex_intrinsics_key_def
          c_MFSampleExtension_Spatial_CameraCoordinateSystem_def
          c_MFSampleExtension_Spatial_CameraViewTransform_def)
  have b1: "fst (FrameArrived ex_platform ex_context \<lparr> TryAcquireLatestFrame = Some ex_bare_frame \<rparr> ex_state)
     = Completed"
    by (simp add: ex_defs handler_defs)
  have b2: "TryAcquireLatestFrame \<lparr> TryAcquireLatestFrame = Some ex_bare_frame \<rparr> = Some ex_bare_frame"
    by simp
  have b3: "Properties ex_bare_frame c_MFSampleExtension_Spatial_CameraCoordinateSystem = None"
    by (simp add: ex_bare_frame_def)
  from FrameArrived_FrameToOrigin [OF a1 a2] a3
  have a: "\<exists>r sf. latestSensorFrame (snd (FrameArrived ex_platform ex_context
               \<lparr> TryAcquireLatestFrame = Some ex_frame \<rparr> ex_state)) = Some r \<and>
           deref (snd (FrameArrived ex_platform ex_context
               \<lparr> TryAcquireLatestFrame = Some ex_frame \<rparr> ex_state)) r = Some sf \<and>
           FrameToOrigin sf = ex_identity"
    by blast
  from FrameArrived_FrameToOrigin [OF b1 b2] b3
  have b: "\<exists>r sf. latestSensorFrame (snd (FrameArrived ex_platform ex_context
               \<lparr> TryAcquireLatestFrame = Some ex_bare_frame \<rparr> ex_state)) = Some r \<and>
           deref (snd (FrameArrived ex_platform ex_context
               \<lparr> TryAcquireLatestFrame = Some ex_bare_frame \<rparr> ex_state)) r = Some sf \<and>
           FrameToOrigin sf = zero"
    by blast
  from a1 a b1 b show ?thesis
    by blast
qed

section \<open>Reinterpreting bytes as a matrix\<close>

lemma bytes_of_le32:
  fixes b0 b1 b2 b3 :: byte
  defines "w \<equiv> (ucast b0 OR push_bit 8 (ucast b1) OR push_bit 16 (ucast b2) OR
                 push_bit 24 (ucast b3) :: 32 word)"
  shows "ucast w = b0" "ucast (drop_bit 8 w) = b1" "ucast (drop_bit 16 w) = b2"
    "ucast (drop_bit 24 w) = b3"
  unfolding w_def
  by (rule bit_word_eqI; auto simp: bit_simps dest: bit_imp_le_length)+

lemma float_bytes_float_at:
  "float_bytes (float_at bs i) = [bs ! (4 * i), bs ! (4 * i + 1), bs ! (4 * i + 2), bs ! (4 * i + 3)]"
  unfolding float_bytes_def float_at_def
  by (simp only: bytes_of_le32)

lemma four_bytes:
  "n + 4 \<le> length bs \<Longrightarrow> [bs ! n, bs ! (n + 1), bs ! (n + 2), bs ! (n + 3)] = take 4 (drop n bs)"
  by (simp add: list_eq_iff_nth_eq nth_Cons' numeral_eq_Suc less_Suc_eq add.commute)

lemma float_bytes_take:
  "4 * i + 4 \<le> length bs \<Longrightarrow> float_bytes (float_at bs i) = take 4 (drop (4 * i) bs)"
  by (simp only: float_bytes_float_at four_bytes)

lemma take_four_more: "take (4 + n) bs = take 4 bs @ take n (drop 4 bs)"
  by (rule take_add)

lemma take_64:
  "take 64 bs =
     take 4 (drop 0 bs) @ take 4 (drop 4 bs) @ take 4 (drop 8 bs) @ take 4 (drop 12 bs) @
     take 4 (drop 16 bs) @ take 4 (drop 20 bs) @ take 4 (drop 24 bs) @ take 4 (drop 28 bs) @
     take 4 (drop 32 bs) @ take 4 (drop 36 bs) @ take 4 (drop 40 bs) @ take 4 (drop 44 bs) @
     take 4 (drop 48 bs) @ take 4 (drop 52 bs) @ take 4 (drop 56 bs) @ take 4 (drop 60 bs)"
proof -
  have "take 64 bs = take (4+(4+(4+(4+(4+(4+(4+(4+(4+(4+(4+(4+(4+(4+(4+(4+0)))))))))))))))) bs"
    by simp
  also have "\<dots> =
     take 4 (drop 0 bs) @ take 4 (drop 4 bs) @ take 4 (drop 8 bs) @ take 4 (drop 12 bs) @
     take 4 (drop 16 bs) @ take 4 (drop 20 bs) @ take 4 (drop 24 bs) @ take 4 (drop 28 bs) @
     take 4 (drop 32 bs) @ take 4 (drop 36 bs) @ take 4 (drop 40 bs) @ take 4 (drop 44 bs) @
     take 4 (drop 48 bs) @ take 4 (drop 52 bs) @ take 4 (drop 56 bs) @ take 4 (drop 60 bs)"
    unfolding take_four_more by simp
  finally show ?thesis .
qed

text \<open>
  The matrix read at the start of an array occupies, in memory, the 64 bytes found there;
  they are the first 64 bytes of the array when the array has that many.
\<close>

lemma length_read_memory: "length (read_memory bs beyond n) = n"
  by (simp add: read_memory_def)

lemma read_memory_within: "n \<le> length bs \<Longrightarrow> read_memory bs beyond n = take n bs"
  by (simp add: read_memory_def)

lemma reinterpret_cast_float4x4_bytes:
  "float4x4_bytes (reinterpret_cast_float4x4 bs beyond) = read_memory bs beyond 64"
proof -
  let ?m = "read_memory bs beyond 64"
  have len: "length ?m = 64"
    by (rule length_read_memory)
  have "float4x4_bytes (reinterpret_cast_float4x4 bs beyond) = take 64 ?m"
    unfolding reinterpret_cast_float4x4_def float4x4_bytes_def Let_def
    by (subst take_64) (simp add: float_bytes_take len)
  with len show ?thesis
    by simp
qed

text \<open>
  Claim C5. After a call that reached the last line on a frame whose view-transform key
  holds a byte array \<open>B\<close>, the object in the slot has as its \<^verbatim>\<open>CameraViewTransform\<close> the
  matrix read at the first byte of \<open>B\<close>, with no change: the 64 bytes the matrix occupies
  in memory are the 64 bytes found there. When \<open>B\<close> has at least 64 bytes, the size of a
  4 by 4 matrix of floats, these are the first 64 bytes of \<open>B\<close>. The program does not look
  at the length of \<open>B\<close>: from a shorter array the bytes behind it become part of the
  matrix. When the key is absent, the transform is the all-zero matrix. No other case can
  reach the last line.
\<close>

theorem FrameArrived_CameraViewTransform:
  assumes "fst (FrameArrived pf this sender s) = Completed"
    and "TryAcquireLatestFrame sender = Some frame"
  shows "\<exists>r sf. latestSensorFrame (snd (FrameArrived pf this sender s)) = Some r \<and>
           deref (snd (FrameArrived pf this sender s)) r = Some sf \<and>
           (\<forall>B beyond. Properties frame c_MFSampleExtension_Spatial_CameraViewTransform
                   = Some (ByteArrayObject B beyond)
              \<longrightarrow> CameraViewTransform sf = reinterpret_cast_float4x4 B beyond \<and>
                  float4x4_bytes (CameraViewTransform sf) = read_memory B beyond 64 \<and>
                  (64 \<le> length B
                     \<longrightarrow> float4x4_bytes (CameraViewTransform sf) = take 64 B)) \<and>
           (Properties frame c_MFSampleExtension_Spatial_CameraViewTransform = None
              \<longrightarrow> CameraViewTransform sf = zero) \<and>
           (Properties frame c_MFSampleExtension_Spatial_CameraViewTransform = None \<or>
            (\<exists>B beyond. Properties frame c_MFSampleExtension_Spatial_CameraViewTransform
                    = Some (ByteArrayObject B beyond)))"
proof -
  from FrameArrived_Completed_frame [OF assms(1)] assms(2)
  obtain video bmp where "VideoMediaFrame frame = Some video" "SoftwareBitmap video = Some bmp"
    by auto
  from FrameArrived_produced [OF assms this]
  obtain sf cvt where
    sf: "latestSensorFrame (snd (FrameArrived pf this sender s)) = Some (length (heap s))"
        "deref (snd (FrameArrived pf this sender s)) (length (heap s)) = Some sf"
    and sel: "cvt = CameraViewTransform sf"
    and cvt0: "(case Properties frame c_MFSampleExtension_Spatial_CameraViewTransform of
        None \<Rightarrow> cvt = zero
      | Some obj \<Rightarrow>
          (case obj of
             ByteArrayObject bs beyond \<Rightarrow> cvt = reinterpret_cast_float4x4 bs beyond
           | _ \<Rightarrow> False))"
    by (elim exE conjE) simp
  from cvt0 have
    cvt: "(case Properties frame c_MFSampleExtension_Spatial_CameraViewTransform of
        None \<Rightarrow> CameraViewTransform sf = zero
      | Some obj \<Rightarrow>
          (case obj of
             ByteArrayObject bs beyond \<Rightarrow>
               CameraViewTransform sf = reinterpret_cast_float4x4 bs beyond
           | _ \<Rightarrow> False))"
    unfolding sel .
  from cvt have
    props: "(\<forall>B beyond. Properties frame c_MFSampleExtension_Spatial_CameraViewTransform
                   = Some (ByteArrayObject B beyond)
              \<longrightarrow> CameraViewTransform sf = reinterpret_cast_float4x4 B beyond \<and>
                  float4x4_bytes (CameraViewTransform sf) = read_memory B beyond 64 \<and>
                  (64 \<le> length B
                     \<longrightarrow> float4x4_bytes (CameraViewTransform sf) = take 64 B)) \<and>
           (Properties frame c_MFSampleExtension_Spatial_CameraViewTransform = None
              \<longrightarrow> CameraViewTransform sf = zero) \<and>
           (Properties frame c_MFSampleExtension_Spatial_CameraViewTransform = None \<or>
            (\<exists>B beyond. Properties frame c_MFSampleExtension_Spatial_CameraViewTransform
                    = Some (ByteArrayObject B beyond)))"
    by (auto split: option.splits Object.splits
          simp add: reinterpret_cast_float4x4_bytes read_memory_within)
  show ?thesis
    apply (rule exI [of _ "length (heap s)"])
    apply (rule exI [of _ sf])
    apply (rule conjI, rule sf(1))
    apply (rule conjI, rule sf(2))
    apply (rule props)
    done
qed

theorem FrameArrived_CameraViewTransform_witness:
  "fst (FrameArrived ex_platform ex_context \<lparr> TryAcquireLatestFrame = Some ex_frame \<rparr> ex_state)
     = Completed \<and>
   length ex_bytes = 64 \<and>
   (\<exists>r sf. latestSensorFrame (snd (FrameArrived ex_platform ex_context
               \<lparr> TryAcquireLatestFrame = Some ex_frame \<rparr> ex_state)) = Some r \<and>
           deref (snd (FrameArrived ex_platform ex_context
               \<lparr> TryAcquireLatestFrame = Some ex_frame \<rparr> ex_state)) r = Some sf \<and>
           CameraViewTransform sf = ex_identity \<and>
           float4x4_bytes (CameraViewTransform sf) = ex_bytes) \<and>
   fst (FrameArrived ex_platform ex_context \<lparr> TryAcquireLatestFrame = Some ex_bare_frame \<rparr> ex_state)
     = Completed \<and>
   (\<exists>r sf. latestSensorFrame (snd (FrameArrived ex_platform ex_context
               \<lparr> TryAcquireLatestFrame = Some ex_bare_frame \<rparr> ex_state)) = Some r \<and>
           deref (snd (FrameArrived ex_platform ex_context
               \<lparr> TryAcquireLatestFrame = Some ex_bare_frame \<rparr> ex_state)) r = Some sf \<and>
           CameraViewTransform sf = zero) \<and>
   fst (FrameArrived ex_platform ex_context \<lparr> TryAcquireLatestFrame = Some ex_short_frame \<rparr> ex_state)
     = Completed \<and>
   (\<exists>r sf. latestSensorFrame (snd (FrameArrived ex_platform ex_context
               \<lparr> TryAcquireLatestFrame = Some ex_short_frame \<rparr> ex_state)) = Some r \<and>
           deref (snd (FrameArrived ex_platform ex_context
               \<lparr> TryAcquireLatestFrame = Some ex_short_frame \<rparr> ex_state)) r = Some sf \<and>
           float4x4_bytes (CameraViewTransform sf) = [0, 0, 128, 63] @ replicate 60 255)"
proof -
  have a1: "fst (FrameArrived ex_platform ex_context \<lparr> TryAcquireLatestFrame = Some ex_frame \<rparr> ex_state)
     = Completed"
    by (simp add: FrameArrived_def extractFrameToOrigin_def extractCameraViewTransform_def
          sendToSink_def ref_new_def Let_def ex_frame_def ex_video_def ex_platform_def
          ex_context_def ex_intrinsics_key_def
          c_MFSampleExtension_Spatial_CameraCoordinateSystem_def
          c_MFSampleExtension_Spatial_CameraViewTransform_def)
  have a2: "TryAcquireLatestFrame \<lparr> TryAcquireLatestFrame = Some ex_frame \<rparr> = Some ex_frame"
    by simp
  have a3: "Properties ex_frame c_MFSampleExtension_Spatial_CameraViewTransform
              = Some (ByteArrayObject ex_bytes (\<lambda>i. 255))"
    by (simp add: ex_frame_def ex_intrinsics_key_def
          c_MFSampleExtension_Spatial_CameraViewTransform_def)
  have a4: "reinterpret_cast_float4x4 ex_bytes (\<lambda>i. 255) = ex_identity"
    by (simp add: reinterpret_cast_float4x4_def read_memory_def float_at_def ex_bytes_def
          ex_identity_def)
  have a5: "take 64 ex_bytes = ex_bytes" "length ex_bytes = 64"
    by (simp_all add: ex_bytes_def)
  have b1: "fst (FrameArrived ex_platform ex_context \<lparr> TryAcquireLatestFrame = Some ex_bare_frame \<rparr> ex_state)
     = Completed"
    by (simp add: FrameArrived_def extractFrameToOrigin_def extractCameraViewTransform_def
          sendToSink_def ref_new_def Let_def ex_bare_frame_def ex_video_def ex_platform_def
          ex_context_def)
  have b2: "TryAcquireLatestFrame \<lparr> TryAcquireLatestFrame = Some ex_bare_frame \<rparr> = Some ex_bare_frame"
    by simp
  have b3: "Properties ex_bare_frame c_MFSampleExtension_Spatial_CameraViewTransform = None"
    by (simp add: ex_bare_frame_def)
  have c1: "fst (FrameArrived ex_platform ex_context \<lparr> TryAcquireLatestFrame = Some ex_short_frame \<rparr> ex_state)
     = Completed"
    by (simp add: FrameArrived_def extractFrameToOrigin_def extractCameraViewTransform_def
          sendToSink_def ref_new_def Let_def ex_short_frame_def ex_video_def ex_platform_def
          ex_context_def c_MFSampleExtension_Spatial_CameraCoordinateSystem_def
          c_MFSampleExtension_Spatial_CameraViewTransform_def)
  have c2: "TryAcquireLatestFrame \<lparr> TryAcquireLatestFrame = Some ex_short_frame \<rparr> = Some ex_short_frame"
    by simp
  have c3: "Properties ex_short_frame c_MFSampleExtension_Spatial_CameraViewTransform
              = Some (ByteArrayObject [0, 0, 128, 63] (\<lambda>i. 255))"
    by (simp add: ex_short_frame_def)
  have c4: "read_memory [0, 0, 128, 63] (\<lambda>i. 255) 64 = [0, 0, 128, 63] @ replicate 60 (255 :: byte)"
    by (simp add: read_memory_def map_replicate_const)
  from FrameArrived_CameraViewTransform [OF a1 a2] a3 a4 a5
  have a: "\<exists>r sf. latestSensorFrame (snd (FrameArrived ex_platform ex_context
               \<lparr> TryAcquireLatestFrame = Some ex_frame \<rparr> ex_state)) = Some r \<and>
           deref (snd (FrameArrived ex_platform ex_context
               \<lparr> TryAcquireLatestFrame = Some ex_frame \<rparr> ex_state)) r = Some sf \<and>
           CameraViewTransform sf = ex_identity \<and>
           float4x4_bytes (CameraViewTransform sf) = ex_bytes"
    by fastforce
  from FrameArrived_CameraViewTransform [OF b1 b2] b3
  have b: "\<exists>r sf. latestSensorFrame (snd (FrameArrived ex_platform ex_context
               \<lparr> TryAcquireLatestFrame = Some ex_bare_frame \<rparr> ex_state)) = Some r \<and>
           deref (snd (FrameArrived ex_platform ex_context
               \<lparr> TryAcquireLatestFrame = Some ex_bare_frame \<rparr> ex_state)) r = Some sf \<and>
           CameraViewTransform sf = zero"
    by blast
  from FrameArrived_CameraViewTransform [OF c1 c2] c3 c4
  have c: "\<exists>r sf. latestSensorFrame (snd (FrameArrived ex_platform ex_context
               \<lparr> TryAcquireLatestFrame = Some ex_short_frame \<rparr> ex_state)) = Some r \<and>
           deref (snd (FrameArrived ex_platform ex_context
               \<lparr> TryAcquireLatestFrame = Some ex_short_frame \<rparr> ex_state)) r = Some sf \<and>
           float4x4_bytes (CameraViewTransform sf) = [0, 0, 128, 63] @ replicate 60 255"
    by fastforce
  from a1 a5(2) a b1 b c1 c show ?thesis
    by blast
qed

section \<open>Camera intrinsics\<close>

text \<open>
  Claim C6, as stated, fails for a wide bitmap: on a visible-light camera a reported width
  of \<open>2 ^ 30\<close> is stored as \<open>0\<close>, not as \<open>2 ^ 32\<close>, because \<^verbatim>\<open>imageWidth * 4\<close> is
  computed in \<^verbatim>\<open>unsigned int\<close>.
\<close>

theorem FrameArrived_wide_bitmap_width:
  "fst (FrameArrived ex_platform ex_context \<lparr> TryAcquireLatestFrame = Some ex_wide_frame \<rparr> initial)
     = Completed \<and>
   heap (snd (FrameArrived ex_platform ex_context
               \<lparr> TryAcquireLatestFrame = Some ex_wide_frame \<rparr> initial)) =
     [\<lparr> FrameType = VisibleLightLeftFront, Timestamp = 3100, Bitmap = ex_wide_bitmap,
        FrameToOrigin = zero, CameraViewTransform = zero,
        FrameCameraIntrinsics =
          Some \<lparr> SensorStreamingCameraIntrinsics = OtherObject 3,
                 ImageWidth = 0, ImageHeight = 1 \<rparr> \<rparr>] \<and>
   unat (PixelWidth ex_wide_bitmap) = 1073741824 \<and>
   unat (0 :: 32 word) \<noteq> 4 * unat (PixelWidth ex_wide_bitmap)"
  by (simp add: ex_defs handler_defs)

text \<open>
  Claim C6, as amended. After a call that reached the last line on a frame that carries the
  intrinsics key, the object in the slot has an intrinsics wrapper holding the stored
  object, the bitmap's height and, as its width: for the four visible-light sensor types,
  four times the bitmap's width modulo \<open>2 ^ 32\<close>, which is four times the width whenever
  the width is below \<open>2 ^ 30\<close>; for every other sensor type, the bitmap's width.
\<close>

theorem FrameArrived_CameraIntrinsics_size:
  assumes "fst (FrameArrived pf this sender s) = Completed"
    and "TryAcquireLatestFrame sender = Some frame"
    and "VideoMediaFrame frame = Some video"
    and "SoftwareBitmap video = Some bitmap"
    and "Properties frame (MFSampleExtension_SensorStreaming_CameraIntrinsics pf) = Some obj"
  shows "\<exists>r sf ci. latestSensorFrame (snd (FrameArrived pf this sender s)) = Some r \<and>
           deref (snd (FrameArrived pf this sender s)) r = Some sf \<and>
           FrameCameraIntrinsics sf = Some ci \<and>
           SensorStreamingCameraIntrinsics ci = obj \<and>
           ImageHeight ci = PixelHeight bitmap \<and>
           (sensorType this \<in> {VisibleLightLeftFront, VisibleLightLeftLeft,
                                VisibleLightRightFront, VisibleLightRightRight}
              \<longrightarrow> unat (ImageWidth ci) = (4 * unat (PixelWidth bitmap)) mod 2 ^ 32 \<and>
                  (unat (PixelWidth bitmap) < 2 ^ 30
                     \<longrightarrow> unat (ImageWidth ci) = 4 * unat (PixelWidth bitmap))) \<and>
           (sensorType this \<notin> {VisibleLightLeftFront, VisibleLightLeftLeft,
                                VisibleLightRightFront, VisibleLightRightRight}
              \<longrightarrow> ImageWidth ci = PixelWidth bitmap)"
proof -
  let ?w = "if sensorType this \<in> {VisibleLightLeftFront, VisibleLightLeftLeft,
                                    VisibleLightRightFront, VisibleLightRightRight}
            then PixelWidth bitmap * 4 else PixelWidth bitmap"
  let ?ci = "\<lparr> SensorStreamingCameraIntrinsics = obj, ImageWidth = ?w,
               ImageHeight = PixelHeight bitmap \<rparr>"
  from FrameArrived_produced [OF assms(1-4)] assms(5)
  obtain sf where
    sf: "latestSensorFrame (snd (FrameArrived pf this sender s)) = Some (length (heap s))"
        "deref (snd (FrameArrived pf this sender s)) (length (heap s)) = Some sf"
    and ci: "FrameCameraIntrinsics sf = Some ?ci"
    by (elim exE conjE) simp
  have mul: "unat (PixelWidth bitmap * 4) = (4 * unat (PixelWidth bitmap)) mod 2 ^ 32"
    by (simp add: unat_word_ariths mult.commute)
  have props: "SensorStreamingCameraIntrinsics ?ci = obj \<and>
           ImageHeight ?ci = PixelHeight bitmap \<and>
           (sensorType this \<in> {VisibleLightLeftFront, VisibleLightLeftLeft,
                                VisibleLightRightFront, VisibleLightRightRight}
              \<longrightarrow> unat (ImageWidth ?ci) = (4 * unat (PixelWidth bitmap)) mod 2 ^ 32 \<and>
                  (unat (PixelWidth bitmap) < 2 ^ 30
                     \<longrightarrow> unat (ImageWidth ?ci) = 4 * unat (PixelWidth bitmap))) \<and>
           (sensorType this \<notin> {VisibleLightLeftFront, VisibleLightLeftLeft,
                                VisibleLightRightFront, VisibleLightRightRight}
              \<longrightarrow> ImageWidth ?ci = PixelWidth bitmap)"
    using mul by auto
  show ?thesis
    apply (rule exI [of _ "length (heap s)"])
    apply (rule exI [of _ sf])
    apply (rule exI [of _ ?ci])
    apply (rule conjI, rule sf(1))
    apply (rule conjI, rule sf(2))
    apply (rule conjI, rule ci)
    apply (rule props)
    done
qed

theorem FrameArrived_CameraIntrinsics_size_witness:
  "fst (FrameArrived ex_platform ex_context \<lparr> TryAcquireLatestFrame = Some ex_frame \<rparr> ex_state)
     = Completed \<and>
   (\<exists>r sf ci. latestSensorFrame (snd (FrameArrived ex_platform ex_context
               \<lparr> TryAcquireLatestFrame = Some ex_frame \<rparr> ex_state)) = Some r \<and>
           deref (snd (FrameArrived ex_platform ex_context
               \<lparr> TryAcquireLatestFrame = Some ex_frame \<rparr> ex_state)) r = Some sf \<and>
           FrameCameraIntrinsics sf = Some ci \<and>
           unat (ImageWidth ci) = 640 \<and> ImageHeight ci = 480) \<and>
   fst (FrameArrived ex_platform ex_depth_context \<lparr> TryAcquireLatestFrame = Some ex_frame \<rparr> ex_state)
     = Completed \<and>
   (\<exists>r sf ci. latestSensorFrame (snd (FrameArrived ex_platform ex_depth_context
               \<lparr> TryAcquireLatestFrame = Some ex_frame \<rparr> ex_state)) = Some r \<and>
           deref (snd (FrameArrived ex_platform ex_depth_context
               \<lparr> TryAcquireLatestFrame = Some ex_frame \<rparr> ex_state)) r = Some sf \<and>
           FrameCameraIntrinsics sf = Some ci \<and>
           ImageWidth ci = 160 \<and> ImageHeight ci = 480)"
proof -
  have a1: "fst (FrameArrived ex_platform ex_context \<lparr> TryAcquireLatestFrame = Some ex_frame \<rparr> ex_state)
     = Completed"
    by (simp add: ex_defs handler_defs)
  have b1: "fst (FrameArrived ex_platform ex_depth_context \<lparr> TryAcquireLatestFrame = Some ex_frame \<rparr> ex_state)
     = Completed"
    by (simp add: ex_defs handler_defs)
  have h2: "TryAcquireLatestFrame \<lparr> TryAcquireLatestFrame = Some ex_frame \<rparr> = Some ex_frame"
    by simp
  have h3: "VideoMediaFrame ex_frame = Some ex_video"
    by (simp add: ex_frame_def)
  have h4: "SoftwareBitmap ex_video = Some ex_bitmap"
    by (simp add: ex_video_def)
  have h5: "Properties ex_frame (MFSampleExtension_SensorStreaming_CameraIntrinsics ex_platform)
              = Some (OtherObject 3)"
    by (simp add: ex_frame_def ex_platform_def)
  have w: "unat (PixelWidth ex_bitmap) = 160" "PixelWidth ex_bitmap = 160" "PixelHeight ex_bitmap = 480"
    by (simp_all add: ex_bitmap_def)
  have ta: "sensorType ex_context = VisibleLightLeftFront"
    by (simp add: ex_context_def)
  have tb: "sensorType ex_depth_context = OtherSensorType 1"
    by (simp add: ex_depth_context_def)
  from FrameArrived_CameraIntrinsics_size [OF a1 h2 h3 h4 h5]
  have a: "\<exists>r sf ci. latestSensorFrame (snd (FrameArrived ex_platform ex_context
               \<lparr> TryAcquireLatestFrame = Some ex_frame \<rparr> ex_state)) = Some r \<and>
           deref (snd (FrameArrived ex_platform ex_context
               \<lparr> TryAcquireLatestFrame = Some ex_frame \<rparr> ex_state)) r = Some sf \<and>
           FrameCameraIntrinsics sf = Some ci \<and>
           unat (ImageWidth ci) = 640 \<and> ImageHeight ci = 480"
    unfolding w ta by fastforce
  from FrameArrived_CameraIntrinsics_size [OF b1 h2 h3 h4 h5]
  have b: "\<exists>r sf ci. latestSensorFrame (snd (FrameArrived ex_platform ex_depth_context
               \<lparr> TryAcquireLatestFrame = Some ex_frame \<rparr> ex_state)) = Some r \<and>
           deref (snd (FrameArrived ex_platform ex_depth_context
               \<lparr> TryAcquireLatestFrame = Some ex_frame \<rparr> ex_state)) r = Some sf \<and>
           FrameCameraIntrinsics sf = Some ci \<and>
           ImageWidth ci = 160 \<and> ImageHeight ci = 480"
    unfolding w tb by fastforce
  from a1 a b1 b show ?thesis
    by blast
qed

text \<open>The two transform blocks look at nothing of a frame but its property bag.\<close>

lemma extract_Properties_only:
  "extractFrameToOrigin pf this (frame\<lparr> VideoMediaFrame := v \<rparr>) r s =
     extractFrameToOrigin pf this frame r s"
  "extractCameraViewTransform pf (frame\<lparr> VideoMediaFrame := v \<rparr>) r s =
     extractCameraViewTransform pf frame r s"
  "extractCameraIntrinsics pf this (frame\<lparr> VideoMediaFrame := v \<rparr>)
       (video\<lparr> VideoCameraIntrinsics := ci \<rparr>) bmp r s =
     extractCameraIntrinsics pf this frame video bmp r s"
  by (simp_all add: extractFrameToOrigin_def extractCameraViewTransform_def
        extractCameraIntrinsics_def)

text \<open>
  Claim C9. After a call that reached the last line on a frame without the intrinsics
  key, the object in the slot has no intrinsics (the field is null; there is no sentinel).
  The intrinsics object of the video frame itself, read at line 245, has no influence on
  anything: whatever it is replaced with, the handler ends the same way in the same state.
\<close>

theorem FrameArrived_CameraIntrinsics_absent:
  assumes "fst (FrameArrived pf this sender s) = Completed"
    and "TryAcquireLatestFrame sender = Some frame"
    and "VideoMediaFrame frame = Some video"
    and "Properties frame (MFSampleExtension_SensorStreaming_CameraIntrinsics pf) = None"
  shows "(\<exists>r sf. latestSensorFrame (snd (FrameArrived pf this sender s)) = Some r \<and>
            deref (snd (FrameArrived pf this sender s)) r = Some sf \<and>
            FrameCameraIntrinsics sf = None) \<and>
         (\<forall>ci. FrameArrived pf this
                 \<lparr> TryAcquireLatestFrame =
                     Some (frame\<lparr> VideoMediaFrame := Some (video\<lparr> VideoCameraIntrinsics := ci \<rparr>) \<rparr>) \<rparr> s
               = FrameArrived pf this sender s)"
proof -
  from FrameArrived_Completed_frame [OF assms(1)] assms(2,3)
  obtain bmp where bmp: "SoftwareBitmap video = Some bmp"
    by auto
  from FrameArrived_produced [OF assms(1-3) bmp] assms(4)
  obtain sf where
    sf: "latestSensorFrame (snd (FrameArrived pf this sender s)) = Some (length (heap s))"
        "deref (snd (FrameArrived pf this sender s)) (length (heap s)) = Some sf"
    and ci: "FrameCameraIntrinsics sf = None"
    by (elim exE conjE) simp
  have same: "FrameArrived pf this
                 \<lparr> TryAcquireLatestFrame =
                     Some (frame\<lparr> VideoMediaFrame := Some (video\<lparr> VideoCameraIntrinsics := ci \<rparr>) \<rparr>) \<rparr> s
               = FrameArrived pf this sender s" for ci
    using assms(2,3) bmp
    by (simp add: FrameArrived_def Let_def extract_Properties_only
          split: option.splits sum.splits prod.splits)
  from sf ci same show ?thesis
    by blast
qed

theorem FrameArrived_CameraIntrinsics_absent_witness:
  "fst (FrameArrived ex_platform ex_context \<lparr> TryAcquireLatestFrame = Some ex_bare_frame \<rparr> ex_state)
     = Completed \<and>
   VideoCameraIntrinsics ex_video = Some 9 \<and>
   (\<exists>r sf. latestSensorFrame (snd (FrameArrived ex_platform ex_context
               \<lparr> TryAcquireLatestFrame = Some ex_bare_frame \<rparr> ex_state)) = Some r \<and>
            deref (snd (FrameArrived ex_platform ex_context
               \<lparr> TryAcquireLatestFrame = Some ex_bare_frame \<rparr> ex_state)) r = Some sf \<and>
            FrameCameraIntrinsics sf = None) \<and>
   FrameArrived ex_platform ex_context
     \<lparr> TryAcquireLatestFrame =
         Some (ex_bare_frame\<lparr> VideoMediaFrame := Some (ex_video\<lparr> VideoCameraIntrinsics := None \<rparr>) \<rparr>) \<rparr>
     ex_state
   = FrameArrived ex_platform ex_context \<lparr> TryAcquireLatestFrame = Some ex_bare_frame \<rparr> ex_state"
proof -
  have h1: "fst (FrameArrived ex_platform ex_context \<lparr> TryAcquireLatestFrame = Some ex_bare_frame \<rparr> ex_state)
     = Completed"
    by (simp add: ex_defs handler_defs)
  have h2: "TryAcquireLatestFrame \<lparr> TryAcquireLatestFrame = Some ex_bare_frame \<rparr> = Some ex_bare_frame"
    by simp
  have h3: "VideoMediaFrame ex_bare_frame = Some ex_video"
    by (simp add: ex_bare_frame_def)
  have h4: "Properties ex_bare_frame (MFSampleExtension_SensorStreaming_CameraIntrinsics ex_platform) = None"
    by (simp add: ex_bare_frame_def)
  have h5: "VideoCameraIntrinsics ex_video = Some 9"
    by (simp add: ex_video_def)
  from h1 h5 FrameArrived_CameraIntrinsics_absent [OF h1 h2 h3 h4] show ?thesis
    by blast
qed

section \<open>Order of delivery and caching\<close>

text \<open>
  Claim C8. A call that reached the last line with a sink configured has added to the
  events, after traces only: the call of \<^verbatim>\<open>Send\<close> with the new frame, then taking the
  mutex, then the assignment of that same frame to the slot, then releasing the mutex.
  So \<^verbatim>\<open>Send\<close> happens inside the handler, before the mutex is taken and before the slot
  is assigned.
\<close>

theorem FrameArrived_Send_before_store:
  assumes "fst (FrameArrived pf this sender s) = Completed"
    and "sensorFrameSink this = Some sink"
  shows "\<exists>r tr. latestSensorFrame (snd (FrameArrived pf this sender s)) = Some r \<and>
           events (snd (FrameArrived pf this sender s)) =
             events s @ tr @ [Send sink r, MutexLock, AssignLatest r, MutexUnlock] \<and>
           list_all is_Trace tr"
proof -
  have "FrameArrived pf this sender s = (Completed, snd (FrameArrived pf this sender s))"
    using assms(1) by (simp add: prod_eq_iff)
  from FrameArrived_Completed [OF this] assms(2)
  obtain tr where
    "latestSensorFrame (snd (FrameArrived pf this sender s)) = Some (length (heap s))"
    "events (snd (FrameArrived pf this sender s)) =
       events s @ tr @ [Send sink (length (heap s)), MutexLock, AssignLatest (length (heap s)), MutexUnlock]"
    "list_all is_Trace tr"
    by (elim exE conjE) simp
  then show ?thesis
    by blast
qed

theorem FrameArrived_Send_before_store_witness:
  "fst (FrameArrived ex_platform ex_context \<lparr> TryAcquireLatestFrame = Some ex_bare_frame \<rparr> ex_state)
     = Completed \<and>
   sensorFrameSink ex_context = Some 5 \<and>
   (\<exists>r tr. latestSensorFrame (snd (FrameArrived ex_platform ex_context
               \<lparr> TryAcquireLatestFrame = Some ex_bare_frame \<rparr> ex_state)) = Some r \<and>
           events (snd (FrameArrived ex_platform ex_context
               \<lparr> TryAcquireLatestFrame = Some ex_bare_frame \<rparr> ex_state)) =
             events ex_state @ tr @ [Send 5 r, MutexLock, AssignLatest r, MutexUnlock] \<and>
           list_all is_Trace tr)"
proof -
  have h1: "fst (FrameArrived ex_platform ex_context \<lparr> TryAcquireLatestFrame = Some ex_bare_frame \<rparr> ex_state)
     = Completed"
    by (simp add: ex_defs handler_defs)
  have h2: "sensorFrameSink ex_context = Some 5"
    by (simp add: ex_context_def)
  from h1 h2 FrameArrived_Send_before_store [OF h1 h2] show ?thesis
    by blast
qed

text \<open>
  A sink that raises: the call of \<^verbatim>\<open>Send\<close> was made, its exception leaves the handler, and the
  slot keeps the reference it held before.
\<close>

lemma FrameArrived_raising_sink_example:
  "fst (FrameArrived ex_raising_platform ex_context
          \<lparr> TryAcquireLatestFrame = Some ex_bare_frame \<rparr> ex_state) = Throw (OtherException 2) \<and>
   latestSensorFrame (snd (FrameArrived ex_raising_platform ex_context
          \<lparr> TryAcquireLatestFrame = Some ex_bare_frame \<rparr> ex_state)) = Some 0 \<and>
   events (snd (FrameArrived ex_raising_platform ex_context
          \<lparr> TryAcquireLatestFrame = Some ex_bare_frame \<rparr> ex_state)) =
     [MutexLock, AssignLatest 0, MutexUnlock,
      Trace ''MediaFrameReaderContext::FrameArrived: _sensorType=%s (%i), timestamp=%llu (relative)'',
      Send 5 1]"
  by (simp add: run_defs run_ex_defs ex_raising_platform_def ex_state_def)

section \<open>The slot after a run of arrivals\<close>

lemma arrivals_snoc:
  "arrivals pf this (senders @ [sender]) s =
     (fst (arrivals pf this senders s) @
        [fst (FrameArrived pf this sender (snd (arrivals pf this senders s)))],
      snd (FrameArrived pf this sender (snd (arrivals pf this senders s))))"
  by (induction senders arbitrary: s) (simp_all add: split_beta)

lemma arrivals_exits_length:
  "length (fst (arrivals pf this senders s)) = length senders"
  by (induction senders arbitrary: s) (simp_all add: split_beta)

text \<open>Every call that reaches the last line allocates exactly one object.\<close>

lemma arrivals_Completed_heap:
  "fst (arrivals pf this senders s) = replicate (length senders) Completed \<Longrightarrow>
     length (heap (snd (arrivals pf this senders s))) = length (heap s) + length senders"
proof (induction senders arbitrary: s)
  case Nil
  then show ?case by simp
next
  case (Cons sender rest)
  let ?s1 = "snd (FrameArrived pf this sender s)"
  from Cons.prems have first: "fst (FrameArrived pf this sender s) = Completed"
    and others: "fst (arrivals pf this rest ?s1) = replicate (length rest) Completed"
    by (simp_all add: split_beta)
  from FrameArrived_Completed_frame [OF first]
  obtain frame video bmp where "TryAcquireLatestFrame sender = Some frame"
    "VideoMediaFrame frame = Some video" "SoftwareBitmap video = Some bmp"
    by blast
  from FrameArrived_produced [OF first this]
  have "length (heap ?s1) = Suc (length (heap s))"
    by blast
  with Cons.IH [OF others] show ?case
    by (simp add: split_beta)
qed

text \<open>A run in which no call reaches the last line leaves the slot as it was.\<close>

lemma arrivals_none_Completed:
  "Completed \<notin> set (fst (arrivals pf this senders s)) \<Longrightarrow>
     latestSensorFrame (snd (arrivals pf this senders s)) = latestSensorFrame s"
proof (induction senders arbitrary: s)
  case Nil
  then show ?case by simp
next
  case (Cons sender rest)
  let ?s1 = "snd (FrameArrived pf this sender s)"
  from Cons.prems have first: "fst (FrameArrived pf this sender s) \<noteq> Completed"
    and others: "Completed \<notin> set (fst (arrivals pf this rest ?s1))"
    by (auto simp add: split_beta)
  from Cons.IH [OF others] FrameArrived_not_Completed(1) [OF first] show ?case
    by (simp add: split_beta)
qed

text \<open>A run in which every call reaches the last line.\<close>

lemma arrivals_all_Completed:
  assumes "fst (arrivals pf this senders initial) = replicate (length senders) Completed"
    and "senders \<noteq> []"
  shows "fst (GetLatestSensorFrame (snd (arrivals pf this senders initial)))
           = Some (length senders - 1) \<and>
         snd (arrivals pf this senders initial) =
           snd (FrameArrived pf this (last senders)
                  (snd (arrivals pf this (butlast senders) initial))) \<and>
         length (heap (snd (arrivals pf this (butlast senders) initial))) = length senders - 1 \<and>
         (\<exists>frame video bitmap d sf.
            TryAcquireLatestFrame (last senders) = Some frame \<and>
            VideoMediaFrame frame = Some video \<and>
            SoftwareBitmap video = Some bitmap \<and>
            SystemRelativeTime frame = Some d \<and>
            deref (snd (arrivals pf this senders initial)) (length senders - 1) = Some sf \<and>
            FrameType sf = sensorType this \<and>
            Timestamp sf = timeConverter this d \<and>
            Bitmap sf = SoftwareBitmap_Copy bitmap)"
proof -
  let ?before = "snd (arrivals pf this (butlast senders) initial)"
  let ?after = "snd (FrameArrived pf this (last senders) ?before)"
  from assms(2) have split: "senders = butlast senders @ [last senders]"
    by simp
  have run: "arrivals pf this senders initial =
     (fst (arrivals pf this (butlast senders) initial) @
        [fst (FrameArrived pf this (last senders) ?before)], ?after)"
    using arrivals_snoc [of pf this "butlast senders" "last senders" initial] split
    by simp
  have len: "length (fst (arrivals pf this (butlast senders) initial)) = length senders - 1"
    by (simp add: arrivals_exits_length)
  have rep: "replicate (length senders) Completed =
               replicate (length senders - 1) Completed @ [Completed]"
    using assms(2) by (cases senders) (simp_all add: replicate_append_same)
  have "fst (arrivals pf this senders initial) =
          fst (arrivals pf this (butlast senders) initial) @
            [fst (FrameArrived pf this (last senders) ?before)]"
    by (simp add: run)
  with assms(1) rep
  have exits: "fst (arrivals pf this (butlast senders) initial) @
        [fst (FrameArrived pf this (last senders) ?before)] =
      replicate (length senders - 1) Completed @ [Completed]"
    by simp
  from exits len
  have earlier: "fst (arrivals pf this (butlast senders) initial) =
                   replicate (length (butlast senders)) Completed"
    and nth: "fst (FrameArrived pf this (last senders) ?before) = Completed"
    by simp_all
  from arrivals_Completed_heap [OF earlier]
  have heap_before: "length (heap ?before) = length senders - 1"
    by (simp add: initial_def)
  from FrameArrived_Completed_frame [OF nth]
  obtain frame video bmp where in1: "TryAcquireLatestFrame (last senders) = Some frame"
    "VideoMediaFrame frame = Some video" "SoftwareBitmap video = Some bmp"
    by blast
  from FrameArrived_produced [OF nth in1]
  obtain d sf where d: "SystemRelativeTime frame = Some d"
    and latest: "latestSensorFrame ?after = Some (length (heap ?before))"
    and sf: "deref ?after (length (heap ?before)) = Some sf"
    and fields: "FrameType sf = sensorType this" "Timestamp sf = timeConverter this d"
      "Bitmap sf = SoftwareBitmap_Copy bmp"
    by (elim exE conjE) simp
  have final: "snd (arrivals pf this senders initial) = ?after"
    using run by simp
  have c2: "fst (GetLatestSensorFrame (snd (arrivals pf this senders initial)))
           = Some (length senders - 1)"
    using latest heap_before by (simp add: final GetLatestSensorFrame_def Let_def)
  have c5: "\<exists>frame video bitmap d sf.
            TryAcquireLatestFrame (last senders) = Some frame \<and>
            VideoMediaFrame frame = Some video \<and>
            SoftwareBitmap video = Some bitmap \<and>
            SystemRelativeTime frame = Some d \<and>
            deref (snd (arrivals pf this senders initial)) (length senders - 1) = Some sf \<and>
            FrameType sf = sensorType this \<and>
            Timestamp sf = timeConverter this d \<and>
            Bitmap sf = SoftwareBitmap_Copy bitmap"
    using in1 d sf fields heap_before final by auto
  from c2 final heap_before c5 show ?thesis
    by (intro conjI)
qed

text \<open>A run over one list of arrivals after another.\<close>

lemma arrivals_append:
  "arrivals pf this (xs @ ys) s =
     (fst (arrivals pf this xs s) @ fst (arrivals pf this ys (snd (arrivals pf this xs s))),
      snd (arrivals pf this ys (snd (arrivals pf this xs s))))"
  by (induction xs arbitrary: s) (simp_all add: split_beta)

text \<open>A run never changes or removes an object allocated before it.\<close>

lemma arrivals_heap_extends:
  "\<exists>new. heap (snd (arrivals pf this senders s)) = heap s @ new"
proof (induction senders arbitrary: s)
  case Nil
  then show ?case by simp
next
  case (Cons sender rest)
  let ?s1 = "snd (FrameArrived pf this sender s)"
  from FrameArrived_heap_extends [of pf this sender s]
  obtain new1 where "heap ?s1 = heap s @ new1"
    by blast
  moreover from Cons.IH [of ?s1]
  obtain new2 where "heap (snd (arrivals pf this rest ?s1)) = heap ?s1 @ new2"
    by blast
  ultimately show ?case
    by (simp add: split_beta)
qed

lemma arrivals_deref:
  assumes "r < length (heap s)"
  shows "deref (snd (arrivals pf this senders s)) r = deref s r"
proof -
  from arrivals_heap_extends [of pf this senders s]
  obtain new where "heap (snd (arrivals pf this senders s)) = heap s @ new"
    by blast
  with assms show ?thesis
    by (simp add: deref_def nth_append)
qed

text \<open>
  A run whose last call to reach the last line is the one for \<open>sender\<close>: the calls for
  \<open>before\<close> come first, and none of the calls for \<open>after\<close> reaches the last line.
\<close>

lemma arrivals_last_Completed:
  assumes reached: "fst (FrameArrived pf this sender (snd (arrivals pf this before s0))) = Completed"
    and rest: "Completed \<notin> set (fst (arrivals pf this after
                 (snd (FrameArrived pf this sender (snd (arrivals pf this before s0))))))"
  shows "latestSensorFrame (snd (arrivals pf this (before @ sender # after) s0))
           = Some (length (heap (snd (arrivals pf this before s0))))"
    and "deref (snd (arrivals pf this (before @ sender # after) s0))
           (length (heap (snd (arrivals pf this before s0))))
         = deref (snd (FrameArrived pf this sender (snd (arrivals pf this before s0))))
             (length (heap (snd (arrivals pf this before s0))))"
    and "count_list (fst (arrivals pf this (before @ sender # after) s0)) Completed
         = Suc (count_list (fst (arrivals pf this before s0)) Completed)"
    and "\<exists>frame video bitmap d sf.
            TryAcquireLatestFrame sender = Some frame \<and>
            VideoMediaFrame frame = Some video \<and>
            SoftwareBitmap video = Some bitmap \<and>
            SystemRelativeTime frame = Some d \<and>
            deref (snd (arrivals pf this (before @ sender # after) s0))
              (length (heap (snd (arrivals pf this before s0)))) = Some sf \<and>
            FrameType sf = sensorType this \<and>
            Timestamp sf = timeConverter this d \<and>
            Bitmap sf = SoftwareBitmap_Copy bitmap"
proof -
  let ?sb = "snd (arrivals pf this before s0)"
  let ?sa = "snd (FrameArrived pf this sender ?sb)"
  let ?r = "length (heap ?sb)"
  have run: "arrivals pf this (before @ sender # after) s0 =
     (fst (arrivals pf this before s0) @ Completed # fst (arrivals pf this after ?sa),
      snd (arrivals pf this after ?sa))"
    using reached by (simp add: arrivals_append split_beta)
  from FrameArrived_Completed_frame [OF reached]
  obtain frame video bmp where in1: "TryAcquireLatestFrame sender = Some frame"
    "VideoMediaFrame frame = Some video" "SoftwareBitmap video = Some bmp"
    by blast
  from FrameArrived_produced [OF reached in1]
  obtain d sf where d: "SystemRelativeTime frame = Some d"
    and latest: "latestSensorFrame ?sa = Some ?r"
    and len: "length (heap ?sa) = Suc ?r"
    and sf: "deref ?sa ?r = Some sf"
    and fields: "FrameType sf = sensorType this" "Timestamp sf = timeConverter this d"
      "Bitmap sf = SoftwareBitmap_Copy bmp"
    by (elim exE conjE) simp
  from arrivals_none_Completed [OF rest] latest
  show c1: "latestSensorFrame (snd (arrivals pf this (before @ sender # after) s0)) = Some ?r"
    by (simp add: run)
  from len have "?r < length (heap ?sa)"
    by simp
  from arrivals_deref [OF this, of pf this after]
  show c2: "deref (snd (arrivals pf this (before @ sender # after) s0)) ?r = deref ?sa ?r"
    by (simp add: run)
  from rest show "count_list (fst (arrivals pf this (before @ sender # after) s0)) Completed
         = Suc (count_list (fst (arrivals pf this before s0)) Completed)"
    by (simp add: run)
  from in1 d sf fields c2
  show "\<exists>frame video bitmap d sf.
            TryAcquireLatestFrame sender = Some frame \<and>
            VideoMediaFrame frame = Some video \<and>
            SoftwareBitmap video = Some bitmap \<and>
            SystemRelativeTime frame = Some d \<and>
            deref (snd (arrivals pf this (before @ sender # after) s0)) ?r = Some sf \<and>
            FrameType sf = sensorType this \<and>
            Timestamp sf = timeConverter this d \<and>
            Bitmap sf = SoftwareBitmap_Copy bitmap"
    by auto
qed

text \<open>Every run in which some call reaches the last line has a last such call.\<close>

lemma arrivals_split_last_Completed:
  assumes "Completed \<in> set (fst (arrivals pf this senders s0))"
  shows "\<exists>before sender after.
           senders = before @ sender # after \<and>
           fst (FrameArrived pf this sender (snd (arrivals pf this before s0))) = Completed \<and>
           Completed \<notin> set (fst (arrivals pf this after
             (snd (FrameArrived pf this sender (snd (arrivals pf this before s0))))))"
proof -
  from split_list_last [OF assms]
  obtain ys zs where exits: "fst (arrivals pf this senders s0) = ys @ Completed # zs"
    and zs: "Completed \<notin> set zs"
    by blast
  let ?n = "length ys"
  have "length (fst (arrivals pf this senders s0)) = length senders"
    by (rule arrivals_exits_length)
  with exits have n: "?n < length senders"
    by simp
  let ?before = "take ?n senders"
  let ?sender = "senders ! ?n"
  let ?after = "drop (Suc ?n) senders"
  let ?sb = "snd (arrivals pf this ?before s0)"
  let ?sa = "snd (FrameArrived pf this ?sender ?sb)"
  from n have split: "senders = ?before @ ?sender # ?after"
    by (rule id_take_nth_drop)
  have "fst (arrivals pf this (?before @ ?sender # ?after) s0) =
          fst (arrivals pf this ?before s0) @
            fst (FrameArrived pf this ?sender ?sb) # fst (arrivals pf this ?after ?sa)"
    by (simp add: arrivals_append split_beta)
  with split exits
  have eq: "fst (arrivals pf this ?before s0) @
              fst (FrameArrived pf this ?sender ?sb) # fst (arrivals pf this ?after ?sa)
            = ys @ Completed # zs"
    by simp
  have "length (fst (arrivals pf this ?before s0)) = length ys"
    using n by (simp add: arrivals_exits_length)
  with eq have "fst (FrameArrived pf this ?sender ?sb) = Completed"
    and "fst (arrivals pf this ?after ?sa) = zs"
    by simp_all
  with zs split show ?thesis
    by blast
qed

text \<open>
  Claim C7. On a new context, as long as no arrival has reached the last line of the
  handler, \<^verbatim>\<open>GetLatestSensorFrame\<close> returns null. After any run of arrivals of which at least
  one reached the last line, it returns the frame of the last arrival that did: when the
  run is \<open>before\<close>, then \<open>sender\<close>, then \<open>after\<close>, the call for \<open>sender\<close> reached the last
  line and none of the calls for \<open>after\<close> did (they were skipped or failed), the result is
  the reference which the call for \<open>sender\<close> allocated (the first one free before that
  call), the object behind it is as that call left it, it carries the context's sensor
  type and the converted timestamp and copied bitmap of the frame of \<open>sender\<close>, and that
  call is the \<open>N\<close>-th to reach the last line, \<open>N\<close> being the number of calls of the run that
  did. Every run with such a call splits in this way. In particular, after \<open>N \<ge> 1\<close>
  arrivals each of which reached the last line, the result is the reference \<open>N - 1\<close>
  allocated by the \<open>N\<close>-th call.
\<close>

theorem GetLatestSensorFrame_after_arrivals:
  "(Completed \<notin> set (fst (arrivals pf this senders initial))
      \<longrightarrow> fst (GetLatestSensorFrame (snd (arrivals pf this senders initial))) = None) \<and>
   (\<forall>before sender after.
      senders = before @ sender # after \<and>
      fst (FrameArrived pf this sender (snd (arrivals pf this before initial))) = Completed \<and>
      Completed \<notin> set (fst (arrivals pf this after
        (snd (FrameArrived pf this sender (snd (arrivals pf this before initial))))))
      \<longrightarrow> fst (GetLatestSensorFrame (snd (arrivals pf this senders initial)))
             = Some (length (heap (snd (arrivals pf this before initial)))) \<and>
          deref (snd (arrivals pf this senders initial))
            (length (heap (snd (arrivals pf this before initial))))
          = deref (snd (FrameArrived pf this sender (snd (arrivals pf this before initial))))
              (length (heap (snd (arrivals pf this before initial)))) \<and>
          count_list (fst (arrivals pf this senders initial)) Completed
          = Suc (count_list (fst (arrivals pf this before initial)) Completed) \<and>
          (\<exists>frame video bitmap d sf.
             TryAcquireLatestFrame sender = Some frame \<and>
             VideoMediaFrame frame = Some video \<and>
             SoftwareBitmap video = Some bitmap \<and>
             SystemRelativeTime frame = Some d \<and>
             deref (snd (arrivals pf this senders initial))
               (length (heap (snd (arrivals pf this before initial)))) = Some sf \<and>
             FrameType sf = sensorType this \<and>
             Timestamp sf = timeConverter this d \<and>
             Bitmap sf = SoftwareBitmap_Copy bitmap)) \<and>
   (Completed \<in> set (fst (arrivals pf this senders initial))
      \<longrightarrow> (\<exists>before sender after.
             senders = before @ sender # after \<and>
             fst (FrameArrived pf this sender (snd (arrivals pf this before initial))) = Completed \<and>
             Completed \<notin> set (fst (arrivals pf this after
               (snd (FrameArrived pf this sender (snd (arrivals pf this before initial)))))))) \<and>
   (fst (arrivals pf this senders initial) = replicate (length senders) Completed \<and>
    senders \<noteq> []
      \<longrightarrow> fst (GetLatestSensorFrame (snd (arrivals pf this senders initial)))
             = Some (length senders - 1) \<and>
          snd (arrivals pf this senders initial) =
            snd (FrameArrived pf this (last senders)
                   (snd (arrivals pf this (butlast senders) initial))) \<and>
          length (heap (snd (arrivals pf this (butlast senders) initial))) = length senders - 1 \<and>
          (\<exists>frame video bitmap d sf.
             TryAcquireLatestFrame (last senders) = Some frame \<and>
             VideoMediaFrame frame = Some video \<and>
             SoftwareBitmap video = Some bitmap \<and>
             SystemRelativeTime frame = Some d \<and>
             deref (snd (arrivals pf this senders initial)) (length senders - 1) = Some sf \<and>
             FrameType sf = sensorType this \<and>
             Timestamp sf = timeConverter this d \<and>
             Bitmap sf = SoftwareBitmap_Copy bitmap))"
proof -
  have none: "fst (GetLatestSensorFrame (snd (arrivals pf this senders initial))) = None"
    if "Completed \<notin> set (fst (arrivals pf this senders initial))"
    using arrivals_none_Completed [OF that]
    by (simp add: GetLatestSensorFrame_def Let_def initial_def)
  have some: "fst (GetLatestSensorFrame (snd (arrivals pf this senders initial)))
             = Some (length (heap (snd (arrivals pf this before initial)))) \<and>
          deref (snd (arrivals pf this senders initial))
            (length (heap (snd (arrivals pf this before initial))))
          = deref (snd (FrameArrived pf this sender (snd (arrivals pf this before initial))))
              (length (heap (snd (arrivals pf this before initial)))) \<and>
          count_list (fst (arrivals pf this senders initial)) Completed
          = Suc (count_list (fst (arrivals pf this before initial)) Completed) \<and>
          (\<exists>frame video bitmap d sf.
             TryAcquireLatestFrame sender = Some frame \<and>
             VideoMediaFrame frame = Some video \<and>
             SoftwareBitmap video = Some bitmap \<and>
             SystemRelativeTime frame = Some d \<and>
             deref (snd (arrivals pf this senders initial))
               (length (heap (snd (arrivals pf this before initial)))) = Some sf \<and>
             FrameType sf = sensorType this \<and>
             Timestamp sf = timeConverter this d \<and>
             Bitmap sf = SoftwareBitmap_Copy bitmap)"
    if "senders = before @ sender # after \<and>
      fst (FrameArrived pf this sender (snd (arrivals pf this before initial))) = Completed \<and>
      Completed \<notin> set (fst (arrivals pf this after
        (snd (FrameArrived pf this sender (snd (arrivals pf this before initial))))))"
    for before sender after
  proof -
    from that have split: "senders = before @ sender # after"
      and reached: "fst (FrameArrived pf this sender (snd (arrivals pf this before initial))) = Completed"
      and rest: "Completed \<notin> set (fst (arrivals pf this after
        (snd (FrameArrived pf this sender (snd (arrivals pf this before initial))))))"
      by simp_all
    from arrivals_last_Completed [OF reached rest] show ?thesis
      unfolding split by (simp add: GetLatestSensorFrame_def Let_def)
  qed
  have ex: "\<exists>before sender after.
             senders = before @ sender # after \<and>
             fst (FrameArrived pf this sender (snd (arrivals pf this before initial))) = Completed \<and>
             Completed \<notin> set (fst (arrivals pf this after
               (snd (FrameArrived pf this sender (snd (arrivals pf this before initial))))))"
    if "Completed \<in> set (fst (arrivals pf this senders initial))"
    using that by (rule arrivals_split_last_Completed)
  have all: "fst (GetLatestSensorFrame (snd (arrivals pf this senders initial)))
             = Some (length senders - 1) \<and>
          snd (arrivals pf this senders initial) =
            snd (FrameArrived pf this (last senders)
                   (snd (arrivals pf this (butlast senders) initial))) \<and>
          length (heap (snd (arrivals pf this (butlast senders) initial))) = length senders - 1 \<and>
          (\<exists>frame video bitmap d sf.
             TryAcquireLatestFrame (last senders) = Some frame \<and>
             VideoMediaFrame frame = Some video \<and>
             SoftwareBitmap video = Some bitmap \<and>
             SystemRelativeTime frame = Some d \<and>
             deref (snd (arrivals pf this senders initial)) (length senders - 1) = Some sf \<and>
             FrameType sf = sensorType this \<and>
             Timestamp sf = timeConverter this d \<and>
             Bitmap sf = SoftwareBitmap_Copy bitmap)"
    if "fst (arrivals pf this senders initial) = replicate (length senders) Completed \<and>
        senders \<noteq> []"
  proof -
    from that have "fst (arrivals pf this senders initial) = replicate (length senders) Completed"
      and "senders \<noteq> []"
      by simp_all
    from arrivals_all_Completed [OF this] show ?thesis .
  qed
  from none some ex all show ?thesis
    by blast
qed

theorem GetLatestSensorFrame_after_arrivals_witness:
  "fst (arrivals ex_platform ex_context
          [\<lparr> TryAcquireLatestFrame = None \<rparr>,
           \<lparr> TryAcquireLatestFrame = Some ex_early_frame \<rparr>] initial)
     = [ReturnFrameNull, ReturnTimestampFailed] \<and>
   fst (GetLatestSensorFrame (snd (arrivals ex_platform ex_context
          [\<lparr> TryAcquireLatestFrame = None \<rparr>,
           \<lparr> TryAcquireLatestFrame = Some ex_early_frame \<rparr>] initial))) = None \<and>
   fst (arrivals ex_platform ex_context
          [\<lparr> TryAcquireLatestFrame = Some ex_bare_frame \<rparr>,
           \<lparr> TryAcquireLatestFrame = None \<rparr>,
           \<lparr> TryAcquireLatestFrame = Some ex_wide_frame \<rparr>,
           \<lparr> TryAcquireLatestFrame = Some ex_miscast_frame \<rparr>,
           \<lparr> TryAcquireLatestFrame = Some ex_early_frame \<rparr>] initial)
     = [Completed, ReturnFrameNull, Completed, Throw InvalidCastException, ReturnTimestampFailed] \<and>
   fst (GetLatestSensorFrame (snd (arrivals ex_platform ex_context
          [\<lparr> TryAcquireLatestFrame = Some ex_bare_frame \<rparr>,
           \<lparr> TryAcquireLatestFrame = None \<rparr>,
           \<lparr> TryAcquireLatestFrame = Some ex_wide_frame \<rparr>,
           \<lparr> TryAcquireLatestFrame = Some ex_miscast_frame \<rparr>,
           \<lparr> TryAcquireLatestFrame = Some ex_early_frame \<rparr>] initial))) = Some 1 \<and>
   (\<exists>sf. deref (snd (arrivals ex_platform ex_context
          [\<lparr> TryAcquireLatestFrame = Some ex_bare_frame \<rparr>,
           \<lparr> TryAcquireLatestFrame = None \<rparr>,
           \<lparr> TryAcquireLatestFrame = Some ex_wide_frame \<rparr>,
           \<lparr> TryAcquireLatestFrame = Some ex_miscast_frame \<rparr>,
           \<lparr> TryAcquireLatestFrame = Some ex_early_frame \<rparr>] initial)) 1 = Some sf \<and>
        FrameType sf = VisibleLightLeftFront \<and> Timestamp sf = 3100 \<and> Bitmap sf = ex_wide_bitmap)"
proof -
  let ?skipped = "[\<lparr> TryAcquireLatestFrame = None \<rparr>,
                   \<lparr> TryAcquireLatestFrame = Some ex_early_frame \<rparr>]"
  let ?before = "[\<lparr> TryAcquireLatestFrame = Some ex_bare_frame \<rparr>,
                  \<lparr> TryAcquireLatestFrame = None \<rparr>]"
  let ?sender = "\<lparr> TryAcquireLatestFrame = Some ex_wide_frame \<rparr>"
  let ?after = "[\<lparr> TryAcquireLatestFrame = Some ex_miscast_frame \<rparr>,
                 \<lparr> TryAcquireLatestFrame = Some ex_early_frame \<rparr>]"
  let ?senders = "[\<lparr> TryAcquireLatestFrame = Some ex_bare_frame \<rparr>,
           \<lparr> TryAcquireLatestFrame = None \<rparr>,
           \<lparr> TryAcquireLatestFrame = Some ex_wide_frame \<rparr>,
           \<lparr> TryAcquireLatestFrame = Some ex_miscast_frame \<rparr>,
           \<lparr> TryAcquireLatestFrame = Some ex_early_frame \<rparr>]"
  have skipped: "fst (arrivals ex_platform ex_context ?skipped initial)
                   = [ReturnFrameNull, ReturnTimestampFailed]"
    by (simp add: run_ex_defs run_defs)
  then have h0: "Completed \<notin> set (fst (arrivals ex_platform ex_context ?skipped initial))"
    by simp
  have exits: "fst (arrivals ex_platform ex_context ?senders initial)
     = [Completed, ReturnFrameNull, Completed, Throw InvalidCastException, ReturnTimestampFailed]"
    by (simp add: run_ex_defs run_defs)
  have heap_before: "length (heap (snd (arrivals ex_platform ex_context ?before initial))) = 1"
    by (simp add: run_ex_defs run_defs)
  have h1: "?senders = ?before @ ?sender # ?after \<and>
      fst (FrameArrived ex_platform ex_context ?sender
             (snd (arrivals ex_platform ex_context ?before initial))) = Completed \<and>
      Completed \<notin> set (fst (arrivals ex_platform ex_context ?after
        (snd (FrameArrived ex_platform ex_context ?sender
                (snd (arrivals ex_platform ex_context ?before initial))))))"
    by (simp add: run_ex_defs run_defs)
  have facts: "SystemRelativeTime ex_wide_frame = Some 3000"
    "VideoMediaFrame ex_wide_frame = Some ex_wide_video"
    "SoftwareBitmap ex_wide_video = Some ex_wide_bitmap"
    "timeConverter ex_context 3000 = 3100"
    "sensorType ex_context = VisibleLightLeftFront"
    "SoftwareBitmap_Copy ex_wide_bitmap = ex_wide_bitmap"
    by (simp_all add: ex_wide_frame_def ex_wide_video_def ex_wide_bitmap_def ex_context_def
          SoftwareBitmap_Copy_def)
  from GetLatestSensorFrame_after_arrivals [of ex_platform ex_context ?skipped, THEN conjunct1] h0
  have none: "fst (GetLatestSensorFrame (snd (arrivals ex_platform ex_context ?skipped initial))) = None"
    by (rule mp)
  from GetLatestSensorFrame_after_arrivals [of ex_platform ex_context ?senders,
      THEN conjunct2, THEN conjunct1, THEN spec, THEN spec, THEN spec, THEN mp, OF h1]
  have "fst (GetLatestSensorFrame (snd (arrivals ex_platform ex_context ?senders initial))) = Some 1 \<and>
   (\<exists>sf. deref (snd (arrivals ex_platform ex_context ?senders initial)) 1 = Some sf \<and>
        FrameType sf = VisibleLightLeftFront \<and> Timestamp sf = 3100 \<and> Bitmap sf = ex_wide_bitmap)"
    unfolding heap_before using facts by (elim exE conjE) simp
  with skipped none exits show ?thesis
    by blast
qed

end
